theory Spec2Isabelle
  imports Complex_Main "HOL-Library.Sublist"
begin

section \<open>Python primitives used by the sources\<close>

text \<open>
  Python \<open>str\<close> values are modelled as \<open>string\<close>; the texts handled here are taken to be
  ASCII. Python \<open>float\<close> values (confidences, execution times, rates) are idealised as
  exact rationals; comparisons and clamping behave the same on both.
\<close>

definition norm_index :: "int \<Rightarrow> int \<Rightarrow> int" where
  \<comment> \<open>how a slice bound is normalised against a sequence of length \<open>n\<close>\<close>
  "norm_index n i = (let j = (if i < 0 then i + n else i) in if j < 0 then 0 else if n < j then n else j)"

definition py_slice :: "'a list \<Rightarrow> int \<Rightarrow> int \<Rightarrow> 'a list" where
  \<comment> \<open>\<open>xs[i:j]\<close>\<close>
  "py_slice xs i j =
     (let n = int (length xs); a = norm_index n i; b = norm_index n j
      in take (nat (b - a)) (drop (nat a) xs))"

definition lower_char :: "char \<Rightarrow> char" where
  "lower_char c =
     (let k = (of_char c :: nat) in if 65 \<le> k \<and> k \<le> 90 then char_of (k + 32) else c)"

definition lower :: "string \<Rightarrow> string" where
  \<comment> \<open>\<open>s.lower()\<close>\<close>
  "lower s = map lower_char s"

fun contains :: "string \<Rightarrow> string \<Rightarrow> bool" where
  \<comment> \<open>\<open>contains d s\<close> is Python's \<open>d in s\<close>\<close>
  "contains d [] = (d = [])"
| "contains d (c # cs) = (prefix d (c # cs) \<or> contains d cs)"

definition py_isspace :: "char \<Rightarrow> bool" where
  "py_isspace c = (let k = (of_char c :: nat) in (9 \<le> k \<and> k \<le> 13) \<or> (28 \<le> k \<and> k \<le> 32))"

definition strip :: "string \<Rightarrow> string" where
  \<comment> \<open>\<open>s.strip()\<close>\<close>
  "strip s = rev (dropWhile py_isspace (rev (dropWhile py_isspace s)))"

datatype exn =
    AttributeError string
  | TypeError string
  | ValueError string
  | ZeroDivisionError
  | OSError string

section \<open>Fixed-window chunking\<close>

subsection \<open>orchestrator.py: RAGSystem.chunk_text\<close>

text \<open>
  The \<open>while start < len(text)\<close> loop. It may run forever, so it is a partial function:
  \<open>None\<close> is the run that never returns.
\<close>

partial_function (option) chunk_loop ::
  "int \<Rightarrow> int \<Rightarrow> string \<Rightarrow> int \<Rightarrow> string list \<Rightarrow> string list option" where
  "chunk_loop chunk_size chunk_overlap text start chunks =
     (if start < int (length text)
      then chunk_loop chunk_size chunk_overlap text (start + (chunk_size - chunk_overlap))
             (chunks @ [py_slice text start (start + chunk_size)])
      else Some chunks)"

definition chunk_text :: "int \<Rightarrow> int \<Rightarrow> string \<Rightarrow> string list option" where
  "chunk_text chunk_size chunk_overlap text = chunk_loop chunk_size chunk_overlap text 0 []"

subsection \<open>rag\_system.py: RAGSystem.\_chunk\_text\<close>

record chunk =
  chunk_id :: string
  chunk_text_of :: string
  chunk_index :: int
  chunk_timestamp :: string

function range_loop :: "int \<Rightarrow> int \<Rightarrow> int \<Rightarrow> int list" where
  \<comment> \<open>the values of \<open>range(i, n, step)\<close> for a positive step\<close>
  "range_loop i n step = (if 0 < step \<and> i < n then i # range_loop (i + step) n step else [])"
  by pat_completeness auto
termination
  by (relation "measure (\<lambda>(i, n, step). nat (n - i))") auto

definition py_range :: "int \<Rightarrow> int \<Rightarrow> exn + int list" where
  \<comment> \<open>\<open>range(0, n, step)\<close> with \<open>0 \<le> n\<close>: a zero step raises, a negative one gives nothing\<close>
  "py_range n step =
     (if step = 0 then Inl (ValueError ''range() arg 3 must not be zero'')
      else if step < 0 then Inr []
      else Inr (range_loop 0 n step))"

definition rag_chunk_at ::
  "(string \<Rightarrow> int \<Rightarrow> string) \<Rightarrow> (int \<Rightarrow> string) \<Rightarrow> int \<Rightarrow> int \<Rightarrow> string \<Rightarrow> int \<Rightarrow> chunk list" where
  \<comment> \<open>the body of the \<open>for\<close> loop at offset \<open>i\<close>: nothing is appended for a blank chunk\<close>
  "rag_chunk_at md5 now chunk_size overlap text i =
     (let c = py_slice text i (i + chunk_size)
      in if strip c \<noteq> []
         then [\<lparr>chunk_id = md5 c i, chunk_text_of = c,
                chunk_index = i div (chunk_size - overlap), chunk_timestamp = now i\<rparr>]
         else [])"

definition rag_chunk_text ::
  "(string \<Rightarrow> int \<Rightarrow> string) \<Rightarrow> (int \<Rightarrow> string) \<Rightarrow> int \<Rightarrow> int \<Rightarrow> string \<Rightarrow> exn + chunk list" where
  \<comment> \<open>\<open>md5 c i\<close> stands for the MD5 digest of the chunk followed by its offset,
      \<open>now i\<close> for the clock reading at that iteration\<close>
  "rag_chunk_text md5 now chunk_size overlap text =
     (case py_range (int (length text)) (chunk_size - overlap) of
        Inl e \<Rightarrow> Inl e
      | Inr offsets \<Rightarrow> Inr (concat (map (rag_chunk_at md5 now chunk_size overlap text) offsets)))"


section \<open>The execution sandbox\<close>

function show_nat :: "nat \<Rightarrow> string" where
  \<comment> \<open>\<open>str(n)\<close> for a non-negative integer\<close>
  "show_nat n = (if n < 10 then [char_of (48 + n)] else show_nat (n div 10) @ [char_of (48 + n mod 10)])"
  by pat_completeness auto
termination
  by (relation "measure id") auto

subsection \<open>orchestrator.py: SecureExecutor\<close>

record audit_entry =
  ae_timestamp :: string
  ae_action :: string
  ae_parameters :: "(string \<times> string) list"
  ae_result :: string
  ae_success :: bool

text \<open>
  \<open>spawn_requests\<close> is not a field of the class: it records every command handed to
  \<open>asyncio.create_subprocess_shell\<close>, so that "no subprocess is spawned" can be stated.
\<close>

record secure_executor =
  safe_mode :: bool
  audit_log :: "audit_entry list"
  spawn_requests :: "string list"

datatype proc_result =
    Exited int string string
  | ProcRaised string

text \<open>
  What the operating system answers: the clock, the outcome of the \<open>n\<close>-th process
  creation (return code, decoded stdout and stderr, or the text of the exception raised
  inside the \<open>try\<close> block), and the file system.
\<close>

record os_env =
  now :: "nat \<Rightarrow> string"
  run_shell :: "nat \<Rightarrow> string \<Rightarrow> proc_result"
  validate_path :: "string \<Rightarrow> bool"
  path_exists :: "string \<Rightarrow> bool"
  read_text :: "string \<Rightarrow> string + string"

definition audit ::
  "os_env \<Rightarrow> string \<Rightarrow> (string \<times> string) list \<Rightarrow> string \<Rightarrow> bool \<Rightarrow> secure_executor \<Rightarrow> secure_executor" where
  "audit env action parameters result success ex =
     ex\<lparr>audit_log := audit_log ex @
        [\<lparr>ae_timestamp = now env (length (audit_log ex)), ae_action = action,
          ae_parameters = parameters, ae_result = take 500 result, ae_success = success\<rparr>]\<rparr>"

definition dangerous :: "string list" where
  "dangerous = [''rm -rf /'', ''dd if='', ''mkfs'', '':(){:|:&};:'', ''fork bomb'']"

definition execute_bash ::
  "os_env \<Rightarrow> string \<Rightarrow> secure_executor \<Rightarrow> (bool \<times> string) \<times> secure_executor" where
  "execute_bash env command ex =
     (if safe_mode ex \<and> list_ex (\<lambda>d. contains d (lower command)) dangerous
      then ((False, ''Command blocked by safe mode''), ex)
      else
        (let ex1 = ex\<lparr>spawn_requests := spawn_requests ex @ [command]\<rparr>
         in case run_shell env (length (spawn_requests ex)) command of
              Exited returncode out err \<Rightarrow>
                (let output = out @ err; success = (returncode = 0)
                 in ((success, output),
                     audit env ''bash_execute'' [(''command'', command)] output success ex1))
            | ProcRaised error \<Rightarrow>
                ((False, error),
                 audit env ''bash_execute'' [(''command'', command)] error False ex1)))"

definition read_file ::
  "os_env \<Rightarrow> string \<Rightarrow> secure_executor \<Rightarrow> (bool \<times> string) \<times> secure_executor" where
  "read_file env filepath ex =
     (if \<not> validate_path env filepath then ((False, ''Path outside workspace''), ex)
      else if \<not> path_exists env filepath then ((False, ''File not found''), ex)
      else case read_text env filepath of
             Inr content \<Rightarrow>
               ((True, content),
                audit env ''file_read'' [(''filepath'', filepath)]
                  (''Read '' @ show_nat (length content) @ '' chars'') True ex)
           | Inl error \<Rightarrow>
               ((False, error),
                audit env ''file_read'' [(''filepath'', filepath)] error False ex))"

subsection \<open>action\_executor.py: ActionExecutor.\_bash\_execute\<close>

record observation =
  ob_success :: bool
  ob_output :: string
  ob_return_code :: "int option"
  ob_action_type :: "string option"

datatype run_result =
    Completed int string string
  | TimeoutExpired
  | RunRaised string

record action_executor =
  ax_safe_mode :: bool
  ax_code_execution_enabled :: bool
  ax_spawn_requests :: "string list"

definition ax_dangerous :: "string list" where
  "ax_dangerous = [''rm -rf'', ''dd if='', ''mkfs'', ''> /dev/'']"

definition bash_execute ::
  "(nat \<Rightarrow> string \<Rightarrow> run_result) \<Rightarrow> (string \<times> string) list \<Rightarrow> action_executor
     \<Rightarrow> observation \<times> action_executor" where
  \<comment> \<open>\<open>subprocess_run n c\<close> is the outcome of the \<open>n\<close>-th \<open>subprocess.run\<close>, of command \<open>c\<close>\<close>
  "bash_execute subprocess_run params ax =
     (let command = (case map_of params ''command'' of Some c \<Rightarrow> c | None \<Rightarrow> '''')
      in if \<not> ax_code_execution_enabled ax
         then (\<lparr>ob_success = False, ob_output = ''Code execution is disabled'',
                ob_return_code = None, ob_action_type = None\<rparr>, ax)
         else if ax_safe_mode ax \<and> list_ex (\<lambda>d. contains d (lower command)) ax_dangerous
         then (\<lparr>ob_success = False, ob_output = ''Command blocked in safe mode'',
                ob_return_code = None, ob_action_type = None\<rparr>, ax)
         else
           (let ax1 = ax\<lparr>ax_spawn_requests := ax_spawn_requests ax @ [command]\<rparr>
            in case subprocess_run (length (ax_spawn_requests ax)) command of
                 Completed returncode out err \<Rightarrow>
                   (\<lparr>ob_success = (returncode = 0),
                     ob_output = (if out \<noteq> [] then out else err),
                     ob_return_code = Some returncode,
                     ob_action_type = Some ''bash_execute''\<rparr>, ax1)
               | TimeoutExpired \<Rightarrow>
                   (\<lparr>ob_success = False, ob_output = ''Command timed out'',
                     ob_return_code = None, ob_action_type = Some ''bash_execute''\<rparr>, ax1)
               | RunRaised e \<Rightarrow>
                   (\<lparr>ob_success = False, ob_output = e,
                     ob_return_code = None, ob_action_type = Some ''bash_execute''\<rparr>, ax1)))"

section \<open>Experience memory (learning\_system.py)\<close>

datatype json =
    JNull
  | JBool bool
  | JInt int
  | JFloat rat
  | JStr string
  | JArr "json list"
  | JObj "(string \<times> json) list"

type_synonym dict = "(string \<times> json) list"

definition dict_get :: "dict \<Rightarrow> string \<Rightarrow> json \<Rightarrow> json" where
  \<comment> \<open>\<open>d.get(key, dflt)\<close> on a dictionary\<close>
  "dict_get d key dflt = (case map_of d key of Some v \<Rightarrow> v | None \<Rightarrow> dflt)"

record experience =
  exp_id :: string
  exp_task_type :: string
  exp_query :: string
  exp_strategy :: "dict list"
  exp_success :: bool
  exp_execution_time :: rat
  exp_context :: "string option"
  exp_failure_reason :: "string option"
  exp_timestamp :: string
  exp_confidence_score :: rat

record pattern =
  pat_count :: int
  pat_success_rate :: rat
  pat_common_actions :: "json list"
  pat_avg_execution_time :: rat

record patterns =
  task_patterns :: "string \<rightharpoonup> pattern"
  failure_patterns :: "string \<rightharpoonup> int"

record playbook_entry =
  pe_hash :: string
  pe_strategy :: "dict list"
  pe_confidence :: rat
  pe_execution_time :: rat
  pe_query_example :: string

record playbook =
  strategies :: "string \<rightharpoonup> playbook_entry list"
  capabilities :: "dict list"

record learning_system =
  experiences :: "experience list"
  ls_patterns :: patterns
  ls_playbook :: playbook

text \<open>The two settings of \<open>config.learning\<close> that the memory reads.\<close>

record learning_config =
  auto_learn :: bool
  confidence_threshold :: rat

definition calculate_confidence :: "dict list \<Rightarrow> bool \<Rightarrow> rat" where
  "calculate_confidence strategy success =
     (let base_score = (if success then 8 / 10 else 2 / 10);
          complexity_factor = min (of_nat (length strategy) / 10) (2 / 10)
      in max 0 (min 1 (base_score - complexity_factor)))"

definition spec_confidence :: "nat \<Rightarrow> bool \<Rightarrow> rat" where
  \<comment> \<open>the specification's formula, on the length of the strategy\<close>
  "spec_confidence n success =
     max 0 (min 1 ((if success then 8 / 10 else 2 / 10) - min (of_nat n / 10) (2 / 10)))"

definition add_action_type :: "json list \<Rightarrow> dict \<Rightarrow> json list" where
  "add_action_type common action =
     (let action_type = dict_get action ''action_type'' (JStr ''unknown'')
      in if action_type \<notin> set common then common @ [action_type] else common)"

definition new_pattern :: pattern where
  "new_pattern = \<lparr>pat_count = 0, pat_success_rate = 0, pat_common_actions = [],
                  pat_avg_execution_time = 0\<rparr>"

definition updated_pattern :: "experience list \<Rightarrow> experience \<Rightarrow> pattern \<Rightarrow> pattern" where
  \<comment> \<open>the pattern entry after the assignments of \<open>_update_patterns\<close>; \<open>exps\<close> is
      \<open>self.experiences\<close>, which already holds the experience being stored\<close>
  "updated_pattern exps experience pattern =
     (let task_type = exp_task_type experience;
          count = pat_count pattern + 1;
          total_successes =
            int (length (filter (\<lambda>e. exp_task_type e = task_type \<and> exp_success e) exps));
          total_time =
            sum_list (map exp_execution_time (filter (\<lambda>e. exp_task_type e = task_type) exps))
      in \<lparr>pat_count = count,
          pat_success_rate = of_int total_successes / of_int count,
          pat_common_actions =
            foldl add_action_type (pat_common_actions pattern) (exp_strategy experience),
          pat_avg_execution_time = total_time / of_int count\<rparr>)"

definition updated_failures :: "experience \<Rightarrow> (string \<rightharpoonup> int) \<Rightarrow> (string \<rightharpoonup> int)" where
  "updated_failures experience failures =
     (case exp_failure_reason experience of
        Some reason \<Rightarrow>
          if \<not> exp_success experience \<and> reason \<noteq> []
          then (let failure_key = exp_task_type experience @ '':'' @ reason
                in failures(failure_key \<mapsto>
                     (case failures failure_key of None \<Rightarrow> 0 | Some k \<Rightarrow> k) + 1))
          else failures
      | None \<Rightarrow> failures)"

definition update_patterns :: "experience list \<Rightarrow> experience \<Rightarrow> patterns \<Rightarrow> exn + patterns" where
  \<comment> \<open>both divisions are by the incremented count: a zero there raises\<close>
  "update_patterns exps experience pats =
     (let task_type = exp_task_type experience;
          pattern = (case task_patterns pats task_type of None \<Rightarrow> new_pattern | Some p \<Rightarrow> p)
      in if pat_count pattern + 1 = 0 then Inl ZeroDivisionError
         else Inr \<lparr>task_patterns =
                     (task_patterns pats)(task_type \<mapsto> updated_pattern exps experience pattern),
                   failure_patterns = updated_failures experience (failure_patterns pats)\<rparr>)"

definition update_playbook ::
  "rat \<Rightarrow> (dict list \<Rightarrow> string) \<Rightarrow> experience \<Rightarrow> playbook \<Rightarrow> playbook" where
  \<comment> \<open>\<open>strategy_hash\<close> is the MD5 digest of the strategy's JSON text with sorted keys\<close>
  "update_playbook threshold strategy_hash experience pb =
     (let task_type = exp_task_type experience;
          confidence = exp_confidence_score experience
      in if threshold \<le> confidence
         then
           (let entries = (case strategies pb task_type of None \<Rightarrow> [] | Some es \<Rightarrow> es);
                h = strategy_hash (exp_strategy experience);
                existing = filter (\<lambda>s. pe_hash s = h) entries
            in if existing = []
               then pb\<lparr>strategies := (strategies pb)(task_type \<mapsto>
                      take 5 (sort_key (\<lambda>x. - pe_confidence x)
                        (entries @
                          [\<lparr>pe_hash = h, pe_strategy = exp_strategy experience,
                            pe_confidence = confidence,
                            pe_execution_time = exp_execution_time experience,
                            pe_query_example = exp_query experience\<rparr>])))\<rparr>
               else pb\<lparr>strategies := (strategies pb)(task_type \<mapsto> entries)\<rparr>)
         else pb)"

definition make_experience ::
  "string \<Rightarrow> string \<Rightarrow> string \<Rightarrow> string \<Rightarrow> dict list \<Rightarrow> bool \<Rightarrow> rat \<Rightarrow> string option \<Rightarrow>
   string option \<Rightarrow> experience" where
  \<comment> \<open>the dictionary \<open>store_experience\<close> builds; \<open>experience_id\<close> is the MD5 digest of the
      task type and the clock reading \<open>timestamp\<close>\<close>
  "make_experience experience_id timestamp task_type query strategy success execution_time
       context failure_reason =
     \<lparr>exp_id = experience_id, exp_task_type = task_type, exp_query = query,
      exp_strategy = strategy, exp_success = success,
      exp_execution_time = execution_time, exp_context = context,
      exp_failure_reason = failure_reason, exp_timestamp = timestamp,
      exp_confidence_score = calculate_confidence strategy success\<rparr>"

definition store_experience ::
  "learning_config \<Rightarrow> (dict list \<Rightarrow> string) \<Rightarrow> string \<Rightarrow> string \<Rightarrow>
   string \<Rightarrow> string \<Rightarrow> dict list \<Rightarrow> bool \<Rightarrow> rat \<Rightarrow> string option \<Rightarrow> string option \<Rightarrow>
   learning_system \<Rightarrow> exn + (string \<times> learning_system)" where
  \<comment> \<open>the in-memory state after the call; the writes of the three files and the addition
      to the semantic index are left out\<close>
  "store_experience cfg strategy_hash experience_id timestamp
       task_type query strategy success execution_time context failure_reason ls =
     (let experience =
            make_experience experience_id timestamp task_type query strategy success
              execution_time context failure_reason;
          ls1 = ls\<lparr>experiences := experiences ls @ [experience]\<rparr>
      in if auto_learn cfg
         then (case update_patterns (experiences ls1) experience (ls_patterns ls1) of
                 Inl e \<Rightarrow> Inl e
               | Inr pats \<Rightarrow>
                   (let ls2 = ls1\<lparr>ls_patterns := pats\<rparr>
                    in if success
                       then Inr (experience_id,
                              ls2\<lparr>ls_playbook :=
                                update_playbook (confidence_threshold cfg) strategy_hash
                                  experience (ls_playbook ls2)\<rparr>)
                       else Inr (experience_id, ls2)))
         else Inr (experience_id, ls1))"

definition init_playbook :: playbook where
  "init_playbook = \<lparr>strategies = Map.empty, capabilities = []\<rparr>"

definition playbook_inv :: "playbook \<Rightarrow> bool" where
  "playbook_inv pb =
     (\<forall>t es. strategies pb t = Some es \<longrightarrow>
        length es \<le> 5 \<and>
        sorted_wrt (\<lambda>a b. pe_confidence b \<le> pe_confidence a) es \<and>
        distinct (map pe_hash es))"

definition example_experience :: "string \<Rightarrow> dict list \<Rightarrow> rat \<Rightarrow> experience" where
  "example_experience task_type strategy confidence =
     \<lparr>exp_id = ''id'', exp_task_type = task_type, exp_query = ''read a file'',
      exp_strategy = strategy, exp_success = True, exp_execution_time = 1,
      exp_context = None, exp_failure_reason = None, exp_timestamp = ''t'',
      exp_confidence_score = confidence\<rparr>"

subsection \<open>Pattern statistics against the log\<close>

text \<open>
  The statistics of a task type recomputed from the whole experience log, as the
  specification words them: the count, successes over count, the set of distinct action
  types used, and the average execution time.
\<close>

definition of_type :: "string \<Rightarrow> experience list \<Rightarrow> experience list" where
  "of_type t elog = filter (\<lambda>e. exp_task_type e = t) elog"

definition spec_count :: "experience list \<Rightarrow> string \<Rightarrow> int" where
  "spec_count elog t = int (length (of_type t elog))"

definition spec_success_rate :: "experience list \<Rightarrow> string \<Rightarrow> rat" where
  "spec_success_rate elog t =
     of_int (int (length (filter exp_success (of_type t elog)))) / of_int (spec_count elog t)"

definition spec_action_types :: "experience list \<Rightarrow> string \<Rightarrow> json set" where
  "spec_action_types elog t =
     set (map (\<lambda>a. dict_get a ''action_type'' (JStr ''unknown''))
            (concat (map exp_strategy (of_type t elog))))"

definition spec_avg_time :: "experience list \<Rightarrow> string \<Rightarrow> rat" where
  "spec_avg_time elog t =
     sum_list (map exp_execution_time (of_type t elog)) / of_int (spec_count elog t)"

definition pattern_consistent :: "experience list \<Rightarrow> string \<Rightarrow> pattern \<Rightarrow> bool" where
  "pattern_consistent elog t p =
     (pat_count p = spec_count elog t \<and>
      pat_success_rate p = spec_success_rate elog t \<and>
      set (pat_common_actions p) = spec_action_types elog t \<and>
      pat_avg_execution_time p = spec_avg_time elog t)"

definition in_sync :: "patterns \<Rightarrow> experience list \<Rightarrow> string \<Rightarrow> bool" where
  \<comment> \<open>the cached count and action types of \<open>t\<close> are those of the log\<close>
  "in_sync pats elog t =
     (case task_patterns pats t of
        None \<Rightarrow> spec_count elog t = 0
      | Some p \<Rightarrow> pat_count p = spec_count elog t \<and>
                  set (pat_common_actions p) = spec_action_types elog t)"

definition pattern_after :: "exn + (string \<times> learning_system) \<Rightarrow> string \<Rightarrow> pattern option" where
  "pattern_after r t =
     (case r of Inl e \<Rightarrow> None | Inr (i, ls) \<Rightarrow> task_patterns (ls_patterns ls) t)"

definition log_after :: "exn + (string \<times> learning_system) \<Rightarrow> experience list" where
  "log_after r = (case r of Inl e \<Rightarrow> [] | Inr (i, ls) \<Rightarrow> experiences ls)"

definition init_learning_system :: learning_system where
  "init_learning_system =
     \<lparr>experiences = [],
      ls_patterns = \<lparr>task_patterns = Map.empty, failure_patterns = Map.empty\<rparr>,
      ls_playbook = init_playbook\<rparr>"

definition stale_first :: "exn + (string \<times> learning_system)" where
  \<comment> \<open>a first success of type \<open>analysis\<close> stored while \<open>AUTO_LEARN\<close> is off\<close>
  "stale_first =
     store_experience \<lparr>auto_learn = False, confidence_threshold = 6 / 10\<rparr> (\<lambda>s. ''h'')
       ''id1'' ''t1'' ''analysis'' ''check it'' [] True 1 None None init_learning_system"

definition stale_second :: "exn + (string \<times> learning_system)" where
  \<comment> \<open>then a second one with \<open>AUTO_LEARN\<close> on\<close>
  "stale_second =
     (case stale_first of
        Inl e \<Rightarrow> Inl e
      | Inr (i, ls) \<Rightarrow>
          store_experience \<lparr>auto_learn = True, confidence_threshold = 6 / 10\<rparr> (\<lambda>s. ''h'')
            ''id2'' ''t2'' ''analysis'' ''check it'' [] True 3 None None ls)"

section \<open>The reasoning loop (orchestrator.py)\<close>

text \<open>
  An \<open>Action\<close> is built from whatever the decoded response holds, so its two fields are
  JSON values; its timestamp is set from the clock and never read by the loop.
\<close>

record action =
  action_type :: json
  parameters :: json

record step =
  st_thought :: json
  st_action :: action
  st_observation :: string
  st_success :: bool
  st_confidence :: json

record learning =
  l_task_type :: string
  l_context :: string
  l_successful_strategy :: "action list"
  l_failure_modes :: "string list"
  l_execution_time :: rat
  l_confidence_score :: rat
  l_prerequisites :: "string list"

record task_result =
  tr_success :: bool
  tr_result :: json
  tr_iterations :: int
  tr_execution_time :: rat
  tr_history :: "step list"

text \<open>
  What one call of the completion provider comes to, after the fenced code block is
  stripped and \<open>json.loads\<close> has run: a decoded value, a \<open>JSONDecodeError\<close>, or any
  other exception with its text.
\<close>

datatype completion =
    Decoded json
  | JSONDecodeError
  | LLMException string

text \<open>
  The collaborators of one run, over a world \<open>'w\<close> (workspace, processes, memory files).
  \<open>llm i query context steps\<close> is the outcome of the call made in iteration \<open>i\<close> with the
  last five steps; \<open>execute_action\<close> is the dispatch to the sandbox, which catches every
  exception and always returns a pair; \<open>store_learning\<close> appends to the learnings file,
  adds to the index and rewrites the patterns file, and may raise; \<open>py_repr\<close> is the text
  Python prints for a float, a list or a dictionary; \<open>set_order\<close> is the order in which
  \<open>list(set(xs))\<close> yields the distinct elements of \<open>xs\<close>; \<open>rag_query\<close> gives the
  contents of the documents found in a collection; \<open>reflection_enabled\<close> is what the
  environment variable \<open>REFLECTION_ENABLED\<close> says; \<open>elapsed i\<close> is the wall-clock time
  read when the loop ends in iteration \<open>i\<close>.
\<close>

record 'w run_env =
  llm :: "int \<Rightarrow> string \<Rightarrow> string \<Rightarrow> step list \<Rightarrow> completion"
  execute_action :: "action \<Rightarrow> 'w \<Rightarrow> (bool \<times> string) \<times> 'w"
  store_learning :: "learning \<Rightarrow> 'w \<Rightarrow> exn option \<times> 'w"
  py_repr :: "json \<Rightarrow> string"
  set_order :: "string list \<Rightarrow> string list"
  rag_query :: "string \<Rightarrow> string \<Rightarrow> nat \<Rightarrow> string list"
  reflection_enabled :: bool
  max_iterations :: int
  elapsed :: "int \<Rightarrow> rat"

definition type_name :: "json \<Rightarrow> string" where
  "type_name v =
     (case v of JNull \<Rightarrow> ''NoneType'' | JBool b \<Rightarrow> ''bool'' | JInt i \<Rightarrow> ''int''
      | JFloat f \<Rightarrow> ''float'' | JStr s \<Rightarrow> ''str'' | JArr xs \<Rightarrow> ''list'' | JObj d \<Rightarrow> ''dict'')"

definition py_get :: "json \<Rightarrow> string \<Rightarrow> json \<Rightarrow> exn + json" where
  \<comment> \<open>\<open>v.get(key, dflt)\<close>: only a dictionary has \<open>get\<close>; the error carries the type's name\<close>
  "py_get v key dflt =
     (case v of JObj d \<Rightarrow> Inr (dict_get d key dflt) | _ \<Rightarrow> Inl (AttributeError (type_name v)))"

definition synthetic_complete :: "json \<Rightarrow> string \<Rightarrow> json" where
  "synthetic_complete thought result =
     JObj [(''thought'', thought),
           (''action'', JObj [(''action_type'', JStr ''complete''),
                              (''parameters'', JObj [(''result'', JStr result)])]),
           (''confidence'', JFloat 0)]"

definition think_and_act :: "'w run_env \<Rightarrow> int \<Rightarrow> string \<Rightarrow> string \<Rightarrow> step list \<Rightarrow> json" where
  "think_and_act env i query context history =
     (case llm env i query context (py_slice history (- 5) (int (length history))) of
        Decoded decision \<Rightarrow> decision
      | JSONDecodeError \<Rightarrow> synthetic_complete (JStr ''Error parsing response'') ''Error in reasoning''
      | LLMException e \<Rightarrow> synthetic_complete (JStr (''LLM error: '' @ e)) ''Error'')"

definition parse_decision :: "json \<Rightarrow> exn + (json \<times> action \<times> json)" where
  \<comment> \<open>the five \<open>get\<close> calls of \<open>run\<close> and the \<open>Action\<close> they build\<close>
  "parse_decision decision =
     (case py_get decision ''thought'' (JStr '''') of
        Inl e \<Rightarrow> Inl e
      | Inr thought \<Rightarrow>
     (case py_get decision ''action'' (JObj []) of
        Inl e \<Rightarrow> Inl e
      | Inr action_dict \<Rightarrow>
     (case py_get decision ''confidence'' (JFloat (1 / 2)) of
        Inl e \<Rightarrow> Inl e
      | Inr confidence \<Rightarrow>
     (case py_get action_dict ''action_type'' (JStr ''complete'') of
        Inl e \<Rightarrow> Inl e
      | Inr atype \<Rightarrow>
     (case py_get action_dict ''parameters'' (JObj []) of
        Inl e \<Rightarrow> Inl e
      | Inr ps \<Rightarrow> Inr (thought, \<lparr>action_type = atype, parameters = ps\<rparr>, confidence))))))"

definition classify_task :: "string \<Rightarrow> string" where
  "classify_task query =
     (let query_lower = lower query
      in if list_ex (\<lambda>kw. contains kw query_lower) [''file'', ''read'', ''write'', ''create'']
         then ''file_operation''
         else if list_ex (\<lambda>kw. contains kw query_lower) [''search'', ''find'', ''look'']
         then ''information_retrieval''
         else if list_ex (\<lambda>kw. contains kw query_lower) [''code'', ''script'', ''program'', ''function'']
         then ''code_generation''
         else if list_ex (\<lambda>kw. contains kw query_lower) [''install'', ''setup'', ''configure'']
         then ''system_setup''
         else if list_ex (\<lambda>kw. contains kw query_lower) [''analyze'', ''check'', ''test'']
         then ''analysis''
         else ''general_task'')"

definition reflect_confidence :: "step list \<Rightarrow> rat" where
  "reflect_confidence history =
     (let total_actions = length history;
          successful_count = length (filter st_success history)
      in if total_actions > 0 then of_nat successful_count / of_nat total_actions else 0)"

definition show_int :: "int \<Rightarrow> string" where
  "show_int i = (if i < 0 then ''-'' @ show_nat (nat (- i)) else show_nat (nat i))"

definition py_str :: "'w run_env \<Rightarrow> json \<Rightarrow> string" where
  \<comment> \<open>\<open>str(v)\<close>, which is also what an f-string puts for \<open>{v}\<close>\<close>
  "py_str env v =
     (case v of
        JStr t \<Rightarrow> t
      | JNull \<Rightarrow> ''None''
      | JBool b \<Rightarrow> (if b then ''True'' else ''False'')
      | JInt i \<Rightarrow> show_int i
      | _ \<Rightarrow> py_repr env v)"

definition py_in :: "string \<Rightarrow> json \<Rightarrow> exn + bool" where
  \<comment> \<open>\<open>t in v\<close> for a string \<open>t\<close>: a substring of a string, an element of a list, a key
      of a dictionary; any other value is not iterable\<close>
  "py_in t v =
     (case v of
        JStr u \<Rightarrow> Inr (contains t u)
      | JArr xs \<Rightarrow> Inr (JStr t \<in> set xs)
      | JObj d \<Rightarrow> Inr (t \<in> set (map fst d))
      | _ \<Rightarrow> Inl (TypeError (type_name v)))"

definition prerequisite_of :: "'w run_env \<Rightarrow> step \<Rightarrow> exn + string list" where
  \<comment> \<open>what the body of the loop of \<open>_extract_prerequisites\<close> appends for one entry, whose
      action is the dictionary \<open>to_dict\<close> gives\<close>
  "prerequisite_of env entry =
     (let atype = action_type (st_action entry);
          ps = parameters (st_action entry)
      in case py_in ''install'' atype of
           Inl e \<Rightarrow> Inl e
         | Inr installs \<Rightarrow>
             if installs \<or> contains ''pip'' (py_str env ps)
             then Inr [''dependency: '' @ py_str env ps]
             else if atype = JStr ''file_read''
             then (case py_get ps ''filepath'' JNull of
                     Inl e \<Rightarrow> Inl e
                   | Inr v \<Rightarrow> Inr [''requires file: '' @ py_str env v])
             else Inr [])"

fun collect_prerequisites :: "'w run_env \<Rightarrow> step list \<Rightarrow> exn + string list" where
  "collect_prerequisites env [] = Inr []"
| "collect_prerequisites env (entry # rest) =
     (case prerequisite_of env entry of
        Inl e \<Rightarrow> Inl e
      | Inr ps \<Rightarrow>
          (case collect_prerequisites env rest of
             Inl e \<Rightarrow> Inl e
           | Inr qs \<Rightarrow> Inr (ps @ qs)))"

definition extract_prerequisites :: "'w run_env \<Rightarrow> step list \<Rightarrow> exn + string list" where
  "extract_prerequisites env history =
     (case collect_prerequisites env history of
        Inl e \<Rightarrow> Inl e
      | Inr prereqs \<Rightarrow> Inr (set_order env prereqs))"

definition make_learning :: "string \<Rightarrow> step list \<Rightarrow> rat \<Rightarrow> string list \<Rightarrow> learning" where
  \<comment> \<open>the \<open>Learning\<close> that \<open>reflect_on_task\<close> builds\<close>
  "make_learning query history execution_time prerequisites =
     (let successful_actions = filter st_success history;
          failures = map st_observation (filter (\<lambda>h. \<not> st_success h) history)
      in \<lparr>l_task_type = classify_task query, l_context = query,
          l_successful_strategy = map st_action successful_actions,
          l_failure_modes = failures, l_execution_time = execution_time,
          l_confidence_score = reflect_confidence history,
          l_prerequisites = prerequisites\<rparr>)"

definition reflect_on_task ::
  "'w run_env \<Rightarrow> string \<Rightarrow> step list \<Rightarrow> json \<Rightarrow> rat \<Rightarrow> 'w \<Rightarrow> (exn + learning) \<times> 'w" where
  \<comment> \<open>no handler stands between \<open>_extract_prerequisites\<close> or \<open>store_learning\<close> and the
      caller\<close>
  "reflect_on_task env query history final_result execution_time w =
     (case extract_prerequisites env history of
        Inl e \<Rightarrow> (Inl e, w)
      | Inr prerequisites \<Rightarrow>
          (let learning = make_learning query history execution_time prerequisites
           in case store_learning env learning w of
                (Some e, w') \<Rightarrow> (Inl e, w')
              | (None, w') \<Rightarrow> (Inr learning, w')))"

definition complete_run ::
  "'w run_env \<Rightarrow> string \<Rightarrow> int \<Rightarrow> step list \<Rightarrow> action \<Rightarrow> action list \<times> 'w
     \<Rightarrow> (exn + task_result) \<times> (action list \<times> 'w)" where
  \<comment> \<open>the branch \<open>if action.action_type == 'complete'\<close>\<close>
  "complete_run env query iteration history action tw =
     (case py_get (parameters action) ''result'' (JStr ''Task completed'') of
        Inl e \<Rightarrow> (Inl e, tw)
      | Inr result \<Rightarrow>
          (let execution_time = elapsed env iteration;
               answer = \<lparr>tr_success = True, tr_result = result, tr_iterations = iteration + 1,
                         tr_execution_time = execution_time, tr_history = history\<rparr>
           in if reflection_enabled env
              then (case reflect_on_task env query history result execution_time (snd tw) of
                      (Inl e, w') \<Rightarrow> (Inl e, (fst tw, w'))
                    | (Inr l, w') \<Rightarrow> (Inr answer, (fst tw, w')))
              else (Inr answer, tw)))"

definition fold_observation :: "string \<Rightarrow> bool \<Rightarrow> string \<Rightarrow> string" where
  "fold_observation context success observation =
     (if success \<and> length observation < 1000
      then context @ [CHR 0x0A] @ ''Latest observation: '' @ observation @ [CHR 0x0A]
      else context)"

text \<open>
  The \<open>while iteration < self.max_iterations\<close> loop. Beside the world it carries the list
  of actions handed to \<open>execute_action\<close> so far, which is not a variable of the source.
\<close>

function run_loop ::
  "'w run_env \<Rightarrow> string \<Rightarrow> int \<Rightarrow> string \<Rightarrow> step list \<Rightarrow> action list \<times> 'w
     \<Rightarrow> (exn + task_result) \<times> (action list \<times> 'w)" where
  "run_loop env query iteration context history tw =
     (if iteration < max_iterations env
      then
        (case parse_decision (think_and_act env iteration query context history) of
           Inl e \<Rightarrow> (Inl e, tw)
         | Inr (thought, action, confidence) \<Rightarrow>
             if action_type action = JStr ''complete''
             then complete_run env query iteration history action tw
             else
               (case execute_action env action (snd tw) of
                  ((success, observation), w') \<Rightarrow>
                    run_loop env query (iteration + 1)
                      (fold_observation context success observation)
                      (history @
                         [\<lparr>st_thought = thought, st_action = action,
                           st_observation = observation, st_success = success,
                           st_confidence = confidence\<rparr>])
                      (fst tw @ [action], w')))
      else
        (Inr \<lparr>tr_success = False,
              tr_result = JStr ''Max iterations reached without completing task'',
              tr_iterations = iteration, tr_execution_time = elapsed env iteration,
              tr_history = history\<rparr>, tw))"
  by pat_completeness auto

termination
  by (relation "measure (\<lambda>(env, query, iteration, context, history, tw).
        nat (max_iterations env - iteration))") auto

definition initial_context :: "'w run_env \<Rightarrow> string \<Rightarrow> string" where
  "initial_context env query =
     ''Relevant Documents:'' @ [CHR 0x0A] @
     concat (map (\<lambda>content. ''- '' @ py_slice content 0 200 @ ''...'' @ [CHR 0x0A])
               (rag_query env query ''docs'' 3)) @
     [CHR 0x0A] @ ''Previous Learnings:'' @ [CHR 0x0A] @
     concat (map (\<lambda>content. ''- '' @ py_slice content 0 200 @ ''...'' @ [CHR 0x0A])
               (rag_query env query ''learnings'' 2))"

definition run :: "'w run_env \<Rightarrow> string \<Rightarrow> 'w \<Rightarrow> (exn + task_result) \<times> (action list \<times> 'w)" where
  "run env query w = run_loop env query 0 (initial_context env query) [] ([], w)"

definition example_env :: "(int \<Rightarrow> completion) \<Rightarrow> exn option \<Rightarrow> bool \<Rightarrow> int \<Rightarrow> unit run_env" where
  \<comment> \<open>a provider answering by iteration alone, a sandbox where everything succeeds with
      output \<open>ok\<close>, and a memory whose write has the given outcome\<close>
  "example_env answers write_outcome reflect maxit =
     \<lparr>llm = (\<lambda>i query context steps. answers i),
      execute_action = (\<lambda>a w. ((True, ''ok''), w)),
      store_learning = (\<lambda>l w. (write_outcome, w)),
      py_repr = (\<lambda>v. ''?''),
      set_order = remdups,
      rag_query = (\<lambda>q c n. []),
      reflection_enabled = reflect,
      max_iterations = maxit,
      elapsed = (\<lambda>i. 1)\<rparr>"

definition ls_decision :: json where
  "ls_decision =
     JObj [(''thought'', JStr ''list the workspace''),
           (''action'', JObj [(''action_type'', JStr ''bash_execute''),
                              (''parameters'', JObj [(''command'', JStr ''ls'')])]),
           (''confidence'', JFloat (9 / 10))]"

definition done_decision :: json where
  "done_decision =
     JObj [(''thought'', JStr ''Task completed successfully''),
           (''action'', JObj [(''action_type'', JStr ''complete''),
                              (''parameters'', JObj [(''result'', JStr ''done'')])]),
           (''confidence'', JFloat 1)]"

definition never_done_env :: "unit run_env" where
  "never_done_env = example_env (\<lambda>i. Decoded ls_decision) None True 3"

definition malformed_env :: "unit run_env" where
  "malformed_env = example_env (\<lambda>i. JSONDecodeError) None True 3"

definition failing_memory_env :: "unit run_env" where
  "failing_memory_env =
     example_env (\<lambda>i. Decoded done_decision) (Some (OSError ''No space left on device'')) True 3"

definition working_memory_env :: "unit run_env" where
  "working_memory_env = example_env (\<lambda>i. Decoded done_decision) None True 3"

definition ok_step :: step where
  "ok_step =
     \<lparr>st_thought = JStr ''list the workspace'',
      st_action = \<lparr>action_type = JStr ''bash_execute'',
                   parameters = JObj [(''command'', JStr ''ls'')]\<rparr>,
      st_observation = ''ok'', st_success = True, st_confidence = JFloat (9 / 10)\<rparr>"

definition reflection_returns ::
  "'w run_env \<Rightarrow> string \<Rightarrow> step list \<Rightarrow> json \<Rightarrow> rat \<Rightarrow> 'w \<Rightarrow> bool" where
  \<comment> \<open>reflection is off, or \<open>reflect_on_task\<close> returns a \<open>Learning\<close>\<close>
  "reflection_returns env query history result execution_time w =
     (if reflection_enabled env
      then \<not> isl (fst (reflect_on_task env query history result execution_time w))
      else True)"

definition never_complete :: "'w run_env \<Rightarrow> bool" where
  \<comment> \<open>every response decodes to a decision whose action is not \<open>complete\<close>\<close>
  "never_complete env =
     (\<forall>i query context history.
        case parse_decision (think_and_act env i query context history) of
          Inl e \<Rightarrow> False
        | Inr (thought, a, confidence) \<Rightarrow> action_type a \<noteq> JStr ''complete'')"

definition exhausted :: "'w run_env \<Rightarrow> step list \<Rightarrow> task_result" where
  "exhausted env history =
     \<lparr>tr_success = False,
      tr_result = JStr ''Max iterations reached without completing task'',
      tr_iterations = max_iterations env, tr_execution_time = elapsed env (max_iterations env),
      tr_history = history\<rparr>"

definition stringly_done_decision :: json where
  \<comment> \<open>a \<open>complete\<close> action whose parameters are a string\<close>
  "stringly_done_decision =
     JObj [(''thought'', JStr ''Task completed successfully''),
           (''action'', JObj [(''action_type'', JStr ''complete''),
                              (''parameters'', JStr ''all done'')]),
           (''confidence'', JFloat 1)]"

definition stringly_env :: "unit run_env" where
  "stringly_env = example_env (\<lambda>i. Decoded stringly_done_decision) None True 3"

definition odd_decision :: json where
  \<comment> \<open>an action whose type is the number 7\<close>
  "odd_decision =
     JObj [(''thought'', JStr ''try something''),
           (''action'', JObj [(''action_type'', JInt 7), (''parameters'', JObj [])]),
           (''confidence'', JFloat (1 / 2))]"

definition odd_then_done_env :: "unit run_env" where
  \<comment> \<open>the odd action first, refused by the sandbox as unknown, then \<open>complete\<close>\<close>
  "odd_then_done_env =
     (example_env (\<lambda>i. if i = 0 then Decoded odd_decision else Decoded done_decision) None True 3)
       \<lparr>execute_action := (\<lambda>a w. ((False, ''Unknown action type: 7''), w))\<rparr>"

text \<open>
  The context and the world the loop has reached once the steps \<open>done\<close> are recorded,
  and what it means for the next recorded step to be the one the loop makes there, in
  iteration \<open>length done\<close>: its thought, action and confidence are the provider's
  decision on that context and history, and its success and observation are what the
  sandbox answers to that action in that world.
\<close>

definition context_after :: "'w run_env \<Rightarrow> string \<Rightarrow> step list \<Rightarrow> string" where
  "context_after env query done =
     foldl (\<lambda>c s. fold_observation c (st_success s) (st_observation s))
       (initial_context env query) done"

definition world_after :: "'w run_env \<Rightarrow> 'w \<Rightarrow> step list \<Rightarrow> 'w" where
  "world_after env w done = foldl (\<lambda>v s. snd (execute_action env (st_action s) v)) w done"

definition recorded_by :: "'w run_env \<Rightarrow> string \<Rightarrow> 'w \<Rightarrow> step list \<Rightarrow> step \<Rightarrow> bool" where
  "recorded_by env query w done s =
     (parse_decision
        (think_and_act env (int (length done)) query (context_after env query done) done)
        = Inr (st_thought s, st_action s, st_confidence s) \<and>
      fst (execute_action env (st_action s) (world_after env w done))
        = (st_success s, st_observation s))"

definition all_recorded :: "'w run_env \<Rightarrow> string \<Rightarrow> 'w \<Rightarrow> step list \<Rightarrow> bool" where
  "all_recorded env query w h =
     (\<forall>i < length h. recorded_by env query w (take i h) (h ! i))"

declare run_loop.simps [simp del]


section \<open>Verified properties\<close>

subsection \<open>Chunking\<close>

lemma chunk_loop_terminates:
  assumes "chunk_overlap < chunk_size"
  shows "\<exists>cs. chunk_loop chunk_size chunk_overlap text start chunks = Some cs"
  using assms
proof (induction "nat (int (length text) - start)" arbitrary: start chunks rule: less_induct)
  case less
  show ?case
  proof (cases "start < int (length text)")
    case True
    have "nat (int (length text) - (start + (chunk_size - chunk_overlap))) < nat (int (length text) - start)"
      using True less.prems by linarith
    from less.hyps[OF this less.prems] show ?thesis
      using True by (subst chunk_loop.simps) simp
  next
    case False
    then show ?thesis by (subst chunk_loop.simps) simp
  qed
qed

lemma chunk_loop_stuck:
  assumes "chunk_loop chunk_size chunk_overlap text start chunks = Some cs"
  shows "chunk_size \<le> chunk_overlap \<longrightarrow> \<not> start < int (length text)"
proof (rule chunk_loop.raw_induct[where P = "\<lambda>sz ov t s c r. sz \<le> ov \<longrightarrow> \<not> s < int (length t)", OF _ assms])
  fix f :: "int \<Rightarrow> int \<Rightarrow> string \<Rightarrow> int \<Rightarrow> string list \<Rightarrow> string list option"
  fix sz ov :: int and t :: string and s :: int and c r :: "string list"
  assume IH: "\<And>sz ov t s c r. f sz ov t s c = Some r \<Longrightarrow> sz \<le> ov \<longrightarrow> \<not> s < int (length t)"
    and step: "(if s < int (length t) then f sz ov t (s + (sz - ov)) (c @ [py_slice t s (s + sz)]) else Some c) = Some r"
  show "sz \<le> ov \<longrightarrow> \<not> s < int (length t)"
  proof (intro impI notI)
    assume le: "sz \<le> ov" and lt: "s < int (length t)"
    from step lt have "f sz ov t (s + (sz - ov)) (c @ [py_slice t s (s + sz)]) = Some r" by simp
    from IH[OF this] le have "\<not> s + (sz - ov) < int (length t)" by simp
    with le lt show False by linarith
  qed
qed

text \<open>
  Claim C10. When \<open>chunk_overlap < chunk_size\<close> both chunking routines return a chunk
  list: the \<open>while\<close> loop of \<open>chunk_text\<close> terminates and \<open>_chunk_text\<close> raises nothing.
  The condition is necessary for \<open>chunk_text\<close>: on a non-empty text with
  \<open>chunk_overlap \<ge> chunk_size\<close> its loop never returns.
\<close>
theorem chunking_terminates_iff_progress:
  "(chunk_overlap < chunk_size \<longrightarrow>
      (\<exists>cs. chunk_text chunk_size chunk_overlap text = Some cs) \<and>
      (\<exists>cs. rag_chunk_text md5 clock chunk_size chunk_overlap text = Inr cs)) \<and>
   (text \<noteq> [] \<and> chunk_size \<le> chunk_overlap \<longrightarrow>
      chunk_text chunk_size chunk_overlap text = None)"
proof (intro conjI impI)
  assume "chunk_overlap < chunk_size"
  then show "\<exists>cs. chunk_text chunk_size chunk_overlap text = Some cs"
    unfolding chunk_text_def by (rule chunk_loop_terminates)
next
  assume "chunk_overlap < chunk_size"
  then show "\<exists>cs. rag_chunk_text md5 clock chunk_size chunk_overlap text = Inr cs"
    by (simp add: rag_chunk_text_def py_range_def)
next
  assume a: "text \<noteq> [] \<and> chunk_size \<le> chunk_overlap"
  show "chunk_text chunk_size chunk_overlap text = None"
  proof (cases "chunk_text chunk_size chunk_overlap text")
    case None
    then show ?thesis .
  next
    case (Some cs)
    then have "chunk_loop chunk_size chunk_overlap text 0 [] = Some cs"
      by (simp add: chunk_text_def)
    from chunk_loop_stuck[OF this] a show ?thesis by simp
  qed
qed

theorem chunking_terminates_iff_progress_witness:
  "((1::int) < 3 \<and>
      (\<exists>cs. chunk_text 3 1 ''abcdefg'' = Some cs) \<and>
      (\<exists>cs. rag_chunk_text (\<lambda>c i. c) (\<lambda>i. ''t'') 3 1 ''abcdefg'' = Inr cs)) \<and>
   (''abcdefg'' \<noteq> [] \<and> (3::int) \<le> 3 \<and> chunk_text 3 3 ''abcdefg'' = None)"
  using chunking_terminates_iff_progress [of 1 3 "''abcdefg''" "\<lambda>c i. c" "\<lambda>i. ''t''"]
        chunking_terminates_iff_progress [of 3 3 "''abcdefg''" "\<lambda>c i. c" "\<lambda>i. ''t''"]
  by simp

subsection \<open>Safe mode and the audit trail\<close>

text \<open>
  Claim C5. In safe mode the command \<open>rm -rf /\<close> is answered with \<open>success = False\<close> and
  an explanatory message by both executors, and no process creation is requested: the
  executor comes back unchanged.
\<close>
theorem safe_mode_blocks_rm_rf_root:
  "execute_bash env ''rm -rf /'' (ex\<lparr>safe_mode := True\<rparr>)
     = ((False, ''Command blocked by safe mode''), ex\<lparr>safe_mode := True\<rparr>) \<and>
   spawn_requests (snd (execute_bash env ''rm -rf /'' (ex\<lparr>safe_mode := True\<rparr>))) = spawn_requests ex \<and>
   bash_execute subprocess_run [(''command'', ''rm -rf /'')] (ax\<lparr>ax_safe_mode := True\<rparr>)
     = (\<lparr>ob_success = False,
         ob_output = (if ax_code_execution_enabled ax then ''Command blocked in safe mode''
                      else ''Code execution is disabled''),
         ob_return_code = None, ob_action_type = None\<rparr>, ax\<lparr>ax_safe_mode := True\<rparr>)"
  by (simp add: execute_bash_def bash_execute_def dangerous_def ax_dangerous_def lower_def lower_char_def)

text \<open>
  Claim C4, evaluated at the inputs where the code departs from it: a command rejected by
  safe mode, a file read refused by path validation and a read of a missing file all
  return with the audit log still empty.
\<close>
theorem blocked_invocations_leave_no_audit_record:
  "audit_log (snd (execute_bash env ''rm -rf /'' \<lparr>safe_mode = True, audit_log = [], spawn_requests = []\<rparr>)) = [] \<and>
   audit_log (snd (read_file (env\<lparr>validate_path := (\<lambda>p. False)\<rparr>) ''/etc/passwd''
       \<lparr>safe_mode = True, audit_log = [], spawn_requests = []\<rparr>)) = [] \<and>
   audit_log (snd (read_file (env\<lparr>validate_path := (\<lambda>p. True), path_exists := (\<lambda>p. False)\<rparr>)
       ''notes.txt'' \<lparr>safe_mode = True, audit_log = [], spawn_requests = []\<rparr>)) = []"
  by (simp add: execute_bash_def read_file_def dangerous_def lower_def lower_char_def)

subsection \<open>The playbook\<close>

lemma sorted_desc_sort_key:
  "sorted_wrt (\<lambda>a b. pe_confidence b \<le> pe_confidence a) (sort_key (\<lambda>x. - pe_confidence x) xs)"
proof -
  have "sorted (map (\<lambda>x. - pe_confidence x) (sort_key (\<lambda>x. - pe_confidence x) xs))"
    by (rule sorted_sort_key)
  then show ?thesis by (simp add: sorted_map)
qed

lemma distinct_hash_insert:
  assumes "distinct (map pe_hash es)" and "filter (\<lambda>s. pe_hash s = pe_hash e) es = []"
  shows "distinct (map pe_hash (take n (sort_key f (es @ [e]))))"
proof -
  from assms(2) have "pe_hash e \<notin> pe_hash ` set es"
    by (auto simp: filter_empty_conv)
  with assms(1) have "distinct (map pe_hash (es @ [e]))" by simp
  then have "distinct (map pe_hash (sort_key f (es @ [e])))"
    by (simp only: distinct_map set_sort distinct_sort) 
  then have "distinct (take n (map pe_hash (sort_key f (es @ [e]))))"
    by (rule distinct_take)
  then show ?thesis by (simp add: take_map)
qed

lemma update_playbook_preserves:
  assumes "playbook_inv pb"
  shows "playbook_inv (update_playbook threshold strategy_hash experience pb)"
proof (cases "threshold \<le> exp_confidence_score experience")
  case False
  with assms show ?thesis by (simp add: update_playbook_def)
next
  case True
  define t where "t = exp_task_type experience"
  define entries where "entries = (case strategies pb t of None \<Rightarrow> [] | Some es \<Rightarrow> es)"
  have ent: "length entries \<le> 5 \<and> sorted_wrt (\<lambda>a b. pe_confidence b \<le> pe_confidence a) entries \<and> distinct (map pe_hash entries)"
    using assms by (auto simp: entries_def playbook_inv_def split: option.splits)
  show ?thesis
  proof (cases "filter (\<lambda>s. pe_hash s = strategy_hash (exp_strategy experience)) entries = []")
    case False
    with True ent assms show ?thesis
      unfolding playbook_inv_def update_playbook_def Let_def t_def[symmetric] entries_def[symmetric]
      by (auto simp: t_def)
  next
    case e: True
    define new where "new = \<lparr>pe_hash = strategy_hash (exp_strategy experience), pe_strategy = exp_strategy experience,
                            pe_confidence = exp_confidence_score experience,
                            pe_execution_time = exp_execution_time experience,
                            pe_query_example = exp_query experience\<rparr>"
    have h: "pe_hash new = strategy_hash (exp_strategy experience)" by (simp add: new_def)
    have d: "distinct (map pe_hash (take 5 (sort_key (\<lambda>x. - pe_confidence x) (entries @ [new]))))"
      using ent e by (intro distinct_hash_insert) (simp_all add: h)
    have s: "sorted_wrt (\<lambda>a b. pe_confidence b \<le> pe_confidence a) (take 5 (sort_key (\<lambda>x. - pe_confidence x) (entries @ [new])))"
      by (intro sorted_wrt_take sorted_desc_sort_key)
    have upd: "update_playbook threshold strategy_hash experience pb
      = pb\<lparr>strategies := (strategies pb)(t \<mapsto> take 5 (sort_key (\<lambda>x. - pe_confidence x) (entries @ [new])))\<rparr>"
      using True e by (simp add: update_playbook_def Let_def t_def entries_def new_def)
    show ?thesis
      unfolding upd playbook_inv_def using assms d s
      by (auto simp: playbook_inv_def)
  qed
qed

lemma playbook_inv_init: "playbook_inv init_playbook"
  by (simp add: playbook_inv_def init_playbook_def)

lemma update_playbook_fold:
  "playbook_inv pb \<Longrightarrow>
   playbook_inv (foldl (\<lambda>p e. update_playbook threshold strategy_hash e p) pb exps)"
  by (induction exps arbitrary: pb) (simp_all add: update_playbook_preserves)

text \<open>
  Claim C7. The playbook a fresh system starts with has, for every task type, at most 5
  entries, sorted by confidence descending, with pairwise different hashes; every
  \<open>_update_playbook\<close> keeps this, and so does any sequence of updates.
\<close>

theorem playbook_top5_sorted_distinct:
  "playbook_inv init_playbook \<and>
   (playbook_inv pb \<longrightarrow> playbook_inv (update_playbook threshold strategy_hash experience pb)) \<and>
   playbook_inv (foldl (\<lambda>p e. update_playbook threshold strategy_hash e p) init_playbook exps)"
  by (simp add: playbook_inv_init update_playbook_preserves update_playbook_fold)

theorem playbook_top5_sorted_distinct_witness:
  "playbook_inv init_playbook \<and>
   playbook_inv (update_playbook (6 / 10) (\<lambda>s. ''h1'')
      (example_experience ''file_operation'' [] (8 / 10)) init_playbook) \<and>
   map_option (map pe_confidence)
     (strategies (update_playbook (6 / 10) (\<lambda>s. ''h1'')
        (example_experience ''file_operation'' [] (8 / 10)) init_playbook) ''file_operation'')
     = Some [8 / 10]"
proof -
  have a: "playbook_inv init_playbook"
    by (simp add: playbook_inv_def init_playbook_def)
  from playbook_top5_sorted_distinct
         [of init_playbook "6 / 10" "\<lambda>s. ''h1''" "example_experience ''file_operation'' [] (8 / 10)" "[]"] a
  have b: "playbook_inv (update_playbook (6 / 10) (\<lambda>s. ''h1'')
      (example_experience ''file_operation'' [] (8 / 10)) init_playbook)"
    by blast
  have c: "map_option (map pe_confidence)
     (strategies (update_playbook (6 / 10) (\<lambda>s. ''h1'')
        (example_experience ''file_operation'' [] (8 / 10)) init_playbook) ''file_operation'')
     = Some [8 / 10]"
    by (simp add: update_playbook_def example_experience_def init_playbook_def)
  from a b c show ?thesis by blast
qed

subsection \<open>Pattern statistics\<close>

lemma set_foldl_add_action_type:
  "set (foldl add_action_type acc as)
     = set acc \<union> (\<lambda>a. dict_get a ''action_type'' (JStr ''unknown'')) ` set as"
  by (induction as arbitrary: acc) (auto simp: add_action_type_def Let_def)

lemma spec_count_append:
  "spec_count (elog @ [e]) t = spec_count elog t + (if exp_task_type e = t then 1 else 0)"
  by (simp add: spec_count_def of_type_def)

lemma spec_action_types_append:
  "spec_action_types (elog @ [e]) (exp_task_type e)
     = spec_action_types elog (exp_task_type e)
       \<union> (\<lambda>a. dict_get a ''action_type'' (JStr ''unknown'')) ` set (exp_strategy e)"
  by (simp add: spec_action_types_def of_type_def)

lemma in_sync_pattern:
  assumes "in_sync pats elog t"
  defines "p \<equiv> (case task_patterns pats t of None \<Rightarrow> new_pattern | Some q \<Rightarrow> q)"
  shows "pat_count p = spec_count elog t" and "set (pat_common_actions p) = spec_action_types elog t"
proof -
  show "pat_count p = spec_count elog t"
    using assms(1) by (auto simp: in_sync_def p_def new_pattern_def split: option.splits)
  show "set (pat_common_actions p) = spec_action_types elog t"
    using assms(1)
    by (auto simp: in_sync_def p_def new_pattern_def spec_action_types_def spec_count_def
             split: option.splits)
qed

lemma updated_pattern_consistent:
  assumes c: "pat_count p = spec_count elog (exp_task_type e)"
    and a: "set (pat_common_actions p) = spec_action_types elog (exp_task_type e)"
  shows "pattern_consistent (elog @ [e]) (exp_task_type e) (updated_pattern (elog @ [e]) e p)"
proof -
  define t where "t = exp_task_type e"
  define exps where "exps = elog @ [e]"
  have c1: "pat_count p + 1 = spec_count exps t"
    by (simp add: c spec_count_append t_def exps_def)
  have f1: "filter (\<lambda>x. exp_task_type x = t \<and> exp_success x) exps = filter exp_success (of_type t exps)"
    by (simp add: of_type_def conj_commute)
  have f2: "filter (\<lambda>x. exp_task_type x = t) exps = of_type t exps"
    by (simp add: of_type_def)
  have 1: "pat_count (updated_pattern exps e p) = spec_count exps t"
    by (simp add: updated_pattern_def Let_def c1)
  have 2: "pat_success_rate (updated_pattern exps e p) = spec_success_rate exps t"
    by (simp add: updated_pattern_def Let_def t_def[symmetric] f1 spec_success_rate_def c1[symmetric])
  have 3: "set (pat_common_actions (updated_pattern exps e p)) = spec_action_types exps t"
    by (simp add: updated_pattern_def Let_def set_foldl_add_action_type a t_def exps_def
                  spec_action_types_append)
  have 4: "pat_avg_execution_time (updated_pattern exps e p) = spec_avg_time exps t"
    by (simp add: updated_pattern_def Let_def t_def[symmetric] f2 spec_avg_time_def c1[symmetric])
  from 1 2 3 4 show ?thesis
    by (simp add: pattern_consistent_def t_def exps_def)
qed

lemma update_patterns_in_sync:
  assumes "in_sync pats elog (exp_task_type e)"
  shows "\<exists>pats'. update_patterns (elog @ [e]) e pats = Inr pats' \<and>
           (\<exists>p. task_patterns pats' (exp_task_type e) = Some p \<and>
                pattern_consistent (elog @ [e]) (exp_task_type e) p)"
proof -
  define p where "p = (case task_patterns pats (exp_task_type e) of None \<Rightarrow> new_pattern | Some q \<Rightarrow> q)"
  have c: "pat_count p = spec_count elog (exp_task_type e)"
    and a: "set (pat_common_actions p) = spec_action_types elog (exp_task_type e)"
    using in_sync_pattern[OF assms] by (simp_all add: p_def)
  have nz: "pat_count p + 1 \<noteq> 0"
    using c by (simp add: spec_count_def)
  have "update_patterns (elog @ [e]) e pats
          = Inr \<lparr>task_patterns = (task_patterns pats)(exp_task_type e \<mapsto> updated_pattern (elog @ [e]) e p),
                 failure_patterns = updated_failures e (failure_patterns pats)\<rparr>"
    using nz by (simp add: update_patterns_def Let_def p_def)
  with updated_pattern_consistent[OF c a] show ?thesis by simp
qed

text \<open>
  Claim C9 as amended. When the cached pattern of the task type agrees with the log on
  the count and on the action types (as it does when every experience so far was stored
  with auto-learn on, starting from an empty memory), storing an experience with
  auto-learn on leaves a pattern equal to the full recompute from the log: count,
  success rate, set of action types and average time.
\<close>

theorem patterns_recomputed_when_in_sync:
  assumes "auto_learn cfg"
    and "in_sync (ls_patterns ls) (experiences ls) task_type"
  shows "\<exists>p. pattern_after
                (store_experience cfg strategy_hash experience_id timestamp task_type query
                   strategy success execution_time context failure_reason ls) task_type = Some p \<and>
             pattern_consistent
                (log_after
                   (store_experience cfg strategy_hash experience_id timestamp task_type query
                      strategy success execution_time context failure_reason ls)) task_type p"
proof -
  define e where "e =
     make_experience experience_id timestamp task_type query strategy success execution_time
       context failure_reason"
  have t: "exp_task_type e = task_type" by (simp add: e_def make_experience_def)
  from assms(2) have "in_sync (ls_patterns ls) (experiences ls) (exp_task_type e)"
    by (simp add: t)
  from update_patterns_in_sync[OF this]
  obtain pats' p where
    u: "update_patterns (experiences ls @ [e]) e (ls_patterns ls) = Inr pats'"
    and p: "task_patterns pats' task_type = Some p"
    and pc: "pattern_consistent (experiences ls @ [e]) task_type p"
    by (auto simp: t)
  have "pattern_after
          (store_experience cfg strategy_hash experience_id timestamp task_type query
             strategy success execution_time context failure_reason ls) task_type = Some p"
    using assms(1) u p
    by (simp add: store_experience_def Let_def e_def[symmetric] pattern_after_def)
  moreover have "log_after
          (store_experience cfg strategy_hash experience_id timestamp task_type query
             strategy success execution_time context failure_reason ls) = experiences ls @ [e]"
    using assms(1) u
    by (simp add: store_experience_def Let_def e_def[symmetric] log_after_def)
  ultimately show ?thesis using pc by simp
qed

theorem patterns_recomputed_when_in_sync_witness:
  "auto_learn \<lparr>auto_learn = True, confidence_threshold = 6 / 10\<rparr> \<and>
   in_sync (ls_patterns init_learning_system) (experiences init_learning_system) ''analysis'' \<and>
   (\<exists>p. pattern_after
           (store_experience \<lparr>auto_learn = True, confidence_threshold = 6 / 10\<rparr> (\<lambda>s. ''h'')
              ''id1'' ''t1'' ''analysis'' ''check it'' [] True 1 None None init_learning_system)
           ''analysis'' = Some p \<and>
         pattern_consistent
           (log_after
              (store_experience \<lparr>auto_learn = True, confidence_threshold = 6 / 10\<rparr> (\<lambda>s. ''h'')
                 ''id1'' ''t1'' ''analysis'' ''check it'' [] True 1 None None init_learning_system))
           ''analysis'' p)"
proof -
  have a: "auto_learn \<lparr>auto_learn = True, confidence_threshold = 6 / 10\<rparr>" by simp
  have b: "in_sync (ls_patterns init_learning_system) (experiences init_learning_system) ''analysis''"
    by (simp add: in_sync_def init_learning_system_def spec_count_def of_type_def)
  from a b patterns_recomputed_when_in_sync[OF a b] show ?thesis by blast
qed

text \<open>
  Claim C9 as stated fails when the cache is stale: one success of type \<open>analysis\<close> is
  logged without a pattern update, the next store counts 1 where the log holds 2, and
  the success rate comes out as 2.
\<close>

theorem stale_cache_diverges_from_log:
  "map_option pat_count (pattern_after stale_second ''analysis'') = Some 1 \<and>
   spec_count (log_after stale_second) ''analysis'' = 2 \<and>
   map_option pat_success_rate (pattern_after stale_second ''analysis'') = Some 2 \<and>
   spec_success_rate (log_after stale_second) ''analysis'' = 1 \<and>
   \<not> pattern_consistent (log_after stale_second) ''analysis''
       (the (pattern_after stale_second ''analysis''))"
  by (simp add: stale_second_def stale_first_def store_experience_def Let_def
        init_learning_system_def init_playbook_def update_patterns_def updated_pattern_def
        updated_failures_def new_pattern_def update_playbook_def calculate_confidence_def make_experience_def
        pattern_after_def log_after_def spec_count_def spec_success_rate_def of_type_def
        pattern_consistent_def)

subsection \<open>Completion of a run\<close>

lemma run_loop_complete:
  assumes "iteration < max_iterations env"
    and "parse_decision (think_and_act env iteration query context history) = Inr (thought, a, confidence)"
    and "action_type a = JStr ''complete''"
  shows "run_loop env query iteration context history tw = complete_run env query iteration history a tw"
  using assms by (subst run_loop.simps) simp

lemma complete_run_returns:
  assumes "parameters a = JObj ps"
    and "reflection_returns env query history (dict_get ps ''result'' (JStr ''Task completed''))
           (elapsed env iteration) w"
  shows "fst (complete_run env query iteration history a (trace, w))
           = Inr \<lparr>tr_success = True, tr_result = dict_get ps ''result'' (JStr ''Task completed''),
                  tr_iterations = iteration + 1, tr_execution_time = elapsed env iteration,
                  tr_history = history\<rparr>"
    and "fst (snd (complete_run env query iteration history a (trace, w))) = trace"
  using assms
  by (auto simp: complete_run_def py_get_def reflection_returns_def Let_def
           split: prod.splits sum.splits)

lemma run_loop_step:
  assumes "iteration < max_iterations env"
    and "parse_decision (think_and_act env iteration query context history) = Inr (thought, a, confidence)"
    and "action_type a \<noteq> JStr ''complete''"
    and "execute_action env a (snd tw) = ((success, observation), w')"
  shows "run_loop env query iteration context history tw
           = run_loop env query (iteration + 1) (fold_observation context success observation)
               (history @ [\<lparr>st_thought = thought, st_action = a, st_observation = observation,
                             st_success = success, st_confidence = confidence\<rparr>])
               (fst tw @ [a], w')"
  using assms by (subst run_loop.simps) simp

lemma run_loop_stop:
  assumes "\<not> iteration < max_iterations env"
  shows "run_loop env query iteration context history tw
           = (Inr \<lparr>tr_success = False,
                   tr_result = JStr ''Max iterations reached without completing task'',
                   tr_iterations = iteration, tr_execution_time = elapsed env iteration,
                   tr_history = history\<rparr>, tw)"
  using assms by (subst run_loop.simps) simp

text \<open>
  Claim C1 as amended. In an iteration whose decision carries a \<open>complete\<close> action with
  a dictionary as parameters, and provided \<open>reflect_on_task\<close>, when reflection is enabled,
  returns, the run ends there: nothing is handed to \<open>execute_action\<close>, and the result has
  \<open>success = True\<close>, \<open>result\<close> the parameters' \<open>result\<close> or \<open>Task completed\<close>, and the
  history as it stood.
\<close>

theorem complete_action_ends_run:
  assumes "iteration < max_iterations env"
    and "parse_decision (think_and_act env iteration query context history)
           = Inr (thought, a, confidence)"
    and "action_type a = JStr ''complete''"
    and "parameters a = JObj ps"
    and "reflection_returns env query history (dict_get ps ''result'' (JStr ''Task completed''))
           (elapsed env iteration) w"
  shows "fst (run_loop env query iteration context history (trace, w))
           = Inr \<lparr>tr_success = True, tr_result = dict_get ps ''result'' (JStr ''Task completed''),
                  tr_iterations = iteration + 1, tr_execution_time = elapsed env iteration,
                  tr_history = history\<rparr> \<and>
         fst (snd (run_loop env query iteration context history (trace, w))) = trace"
  using run_loop_complete[OF assms(1-3)] complete_run_returns[OF assms(4,5)]
  by simp

lemma malformed_env_parse:
  "parse_decision (think_and_act malformed_env i query context history)
     = Inr (JStr ''Error parsing response'',
            \<lparr>action_type = JStr ''complete'',
             parameters = JObj [(''result'', JStr ''Error in reasoning'')]\<rparr>, JFloat 0)"
  by (simp add: malformed_env_def example_env_def think_and_act_def synthetic_complete_def
        parse_decision_def py_get_def dict_get_def)

lemma ok_step_prerequisite: "prerequisite_of (example_env answers outcome reflect maxit) ok_step = Inr []"
  by (simp add: prerequisite_of_def ok_step_def py_in_def py_str_def example_env_def)

lemma malformed_env_reflection_nil:
  "reflection_returns malformed_env query [] result t w"
  by (simp add: reflection_returns_def reflect_on_task_def extract_prerequisites_def
        malformed_env_def example_env_def)

lemma malformed_env_reflection_ok_step:
  "reflection_returns malformed_env query [ok_step] result t w"
  by (simp add: reflection_returns_def reflect_on_task_def extract_prerequisites_def
        malformed_env_def ok_step_prerequisite)
     (simp add: example_env_def)

theorem complete_action_ends_run_witness:
  "(0::int) < max_iterations malformed_env \<and>
   fst (run_loop malformed_env ''q'' 0 ''ctx'' [] ([], ()))
     = Inr \<lparr>tr_success = True, tr_result = JStr ''Error in reasoning'', tr_iterations = 1,
            tr_execution_time = 1, tr_history = []\<rparr> \<and>
   fst (snd (run_loop malformed_env ''q'' 0 ''ctx'' [] ([], ()))) = []"
proof -
  have m: "(0::int) < max_iterations malformed_env"
    by (simp add: malformed_env_def example_env_def)
  have e: "elapsed malformed_env 0 = 1"
    by (simp add: malformed_env_def example_env_def)
  from complete_action_ends_run
         [OF m malformed_env_parse _ _ malformed_env_reflection_nil,
          of "[(''result'', JStr ''Error in reasoning'')]" "''q''" "''ctx''" "[]"]
  show ?thesis using m e by (simp add: dict_get_def)
qed

text \<open>
  Claim C1 as stated fails. A \<open>complete\<close> action whose parameters are a string makes
  the run raise \<open>AttributeError\<close> at \<open>parameters.get\<close>; and a \<open>complete\<close> action that
  follows a recorded step whose action type is the number 7 makes the run raise
  \<open>TypeError\<close> inside \<open>reflect_on_task\<close>. In both no result is returned.
\<close>

theorem complete_action_can_raise:
  "fst (run stringly_env ''q'' ()) = Inl (AttributeError ''str'') \<and>
   fst (run odd_then_done_env ''q'' ()) = Inl (TypeError ''int'')"
proof -
  have m: "(0::int) < max_iterations stringly_env"
    by (simp add: stringly_env_def example_env_def)
  have p: "parse_decision (think_and_act stringly_env 0 ''q'' (initial_context stringly_env ''q'') [])
     = Inr (JStr ''Task completed successfully'',
            \<lparr>action_type = JStr ''complete'', parameters = JStr ''all done''\<rparr>, JFloat 1)"
    by (simp add: stringly_env_def example_env_def think_and_act_def stringly_done_decision_def
        parse_decision_def py_get_def dict_get_def)
  have "run_loop stringly_env ''q'' 0 (initial_context stringly_env ''q'') [] ([], ())
          = complete_run stringly_env ''q'' 0 []
              \<lparr>action_type = JStr ''complete'', parameters = JStr ''all done''\<rparr> ([], ())"
    by (rule run_loop_complete[OF m p]) simp
  then have a: "fst (run stringly_env ''q'' ()) = Inl (AttributeError ''str'')"
    by (simp add: run_def complete_run_def py_get_def type_name_def)
  let ?env = odd_then_done_env
  let ?odd = "\<lparr>action_type = JInt 7, parameters = JObj []\<rparr>"
  let ?s = "\<lparr>st_thought = JStr ''try something'', st_action = ?odd,
             st_observation = ''Unknown action type: 7'', st_success = False,
             st_confidence = JFloat (1 / 2)\<rparr>"
  let ?c = "fold_observation (initial_context ?env ''q'') False ''Unknown action type: 7''"
  have m0: "(0::int) < max_iterations ?env" and m1: "(0::int) + 1 < max_iterations ?env"
    by (simp_all add: odd_then_done_env_def example_env_def)
  have p0: "parse_decision (think_and_act ?env 0 ''q'' (initial_context ?env ''q'') [])
              = Inr (JStr ''try something'', ?odd, JFloat (1 / 2))"
    by (simp add: odd_then_done_env_def example_env_def think_and_act_def odd_decision_def
        parse_decision_def py_get_def dict_get_def)
  have x0: "execute_action ?env ?odd (snd ([], ())) = ((False, ''Unknown action type: 7''), ())"
    by (simp add: odd_then_done_env_def example_env_def)
  have s0: "run_loop ?env ''q'' 0 (initial_context ?env ''q'') [] ([], ())
              = run_loop ?env ''q'' (0 + 1) ?c ([] @ [?s]) (fst ([], ()) @ [?odd], ())"
    by (rule run_loop_step[OF m0 p0 _ x0]) simp
  have p1: "parse_decision (think_and_act ?env (0 + 1) ''q'' ?c ([] @ [?s]))
     = Inr (JStr ''Task completed successfully'',
            \<lparr>action_type = JStr ''complete'', parameters = JObj [(''result'', JStr ''done'')]\<rparr>,
            JFloat 1)"
    by (simp add: odd_then_done_env_def example_env_def think_and_act_def done_decision_def
        parse_decision_def py_get_def dict_get_def)
  have s1: "run_loop ?env ''q'' (0 + 1) ?c ([] @ [?s]) (fst ([], ()) @ [?odd], ())
              = complete_run ?env ''q'' (0 + 1) ([] @ [?s])
                  \<lparr>action_type = JStr ''complete'', parameters = JObj [(''result'', JStr ''done'')]\<rparr>
                  (fst ([], ()) @ [?odd], ())"
    by (rule run_loop_complete[OF m1 p1]) simp
  have r: "reflection_enabled ?env"
    by (simp add: odd_then_done_env_def example_env_def)
  have x: "extract_prerequisites ?env [?s] = Inl (TypeError ''int'')"
    by (simp add: extract_prerequisites_def prerequisite_of_def py_in_def type_name_def)
  have "fst (complete_run ?env ''q'' (0 + 1) ([] @ [?s])
                  \<lparr>action_type = JStr ''complete'', parameters = JObj [(''result'', JStr ''done'')]\<rparr>
                  (fst ([], ()) @ [?odd], ())) = Inl (TypeError ''int'')"
    using r x by (simp add: complete_run_def py_get_def dict_get_def reflect_on_task_def)
  with s0 s1 have b: "fst (run ?env ''q'' ()) = Inl (TypeError ''int'')"
    by (simp add: run_def)
  from a b show ?thesis by simp
qed

subsection \<open>Exhausting the iteration budget\<close>

lemma context_after_snoc:
  "context_after env query (done @ [s])
     = fold_observation (context_after env query done) (st_success s) (st_observation s)"
  by (simp add: context_after_def)

lemma world_after_snoc:
  "world_after env w (done @ [s]) = snd (execute_action env (st_action s) (world_after env w done))"
  by (simp add: world_after_def)

lemma all_recorded_snoc:
  assumes "all_recorded env query w h" and "recorded_by env query w h s"
  shows "all_recorded env query w (h @ [s])"
  unfolding all_recorded_def
proof (intro allI impI)
  fix i assume "i < length (h @ [s])"
  then consider "i < length h" | "i = length h" by fastforce
  then show "recorded_by env query w (take i (h @ [s])) ((h @ [s]) ! i)"
  proof cases
    case 1
    with assms(1) show ?thesis by (simp add: all_recorded_def nth_append)
  next
    case 2
    with assms(2) show ?thesis by simp
  qed
qed

lemma run_loop_exhausts:
  assumes nc: "never_complete env"
    and "iteration \<le> max_iterations env"
    and "n = nat (max_iterations env - iteration)"
    and "int (length history) = iteration"
    and "ctx = context_after env query history"
    and "w = world_after env w0 history"
    and "trace = map st_action history"
    and "all_recorded env query w0 history"
  shows "\<exists>h. run_loop env query iteration ctx history (trace, w)
               = (Inr (exhausted env h), (map st_action h, world_after env w0 h)) \<and>
             int (length h) = max_iterations env \<and>
             all_recorded env query w0 h"
  using assms(2-)
proof (induction n arbitrary: iteration ctx history trace w)
  case 0
  then have eq: "iteration = max_iterations env" by simp
  then have "\<not> iteration < max_iterations env" by simp
  from run_loop_stop[OF this] eq 0 show ?case
    by (intro exI[of _ history]) (simp add: exhausted_def)
next
  case (Suc n)
  then have lt: "iteration < max_iterations env" by linarith
  obtain thought a confidence where
    p: "parse_decision (think_and_act env iteration query ctx history) = Inr (thought, a, confidence)"
    and na: "action_type a \<noteq> JStr ''complete''"
  proof -
    from nc
    have c: "case parse_decision (think_and_act env iteration query ctx history) of
               Inl e \<Rightarrow> False
             | Inr (thought, a, confidence) \<Rightarrow> action_type a \<noteq> JStr ''complete''"
      unfolding never_complete_def by blast
    show ?thesis
    proof (cases "parse_decision (think_and_act env iteration query ctx history)")
      case (Inl e)
      with c show ?thesis by simp
    next
      case (Inr r)
      obtain t a cf where r: "r = (t, a, cf)" by (cases r) auto
      with c Inr have "action_type a \<noteq> JStr ''complete''" by simp
      with Inr r that show ?thesis by simp
    qed
  qed
  obtain success observation w' where
    x: "execute_action env a w = ((success, observation), w')"
    by (metis prod.exhaust)
  define s where "s = \<lparr>st_thought = thought, st_action = a, st_observation = observation,
                             st_success = success, st_confidence = confidence\<rparr>"
  have sa: "st_action s = a" "st_success s = success" "st_observation s = observation"
    "st_thought s = thought" "st_confidence s = confidence"
    by (simp_all add: s_def)
  have step: "run_loop env query iteration ctx history (trace, w)
           = run_loop env query (iteration + 1) (fold_observation ctx success observation)
               (history @ [s]) (trace @ [a], w')"
    using run_loop_step[OF lt p na, of "(trace, w)" success observation w'] x
    by (simp add: s_def)
  have rec: "recorded_by env query w0 history s"
    using p x Suc.prems(3,4,5) by (simp add: recorded_by_def sa)
  have 1: "iteration + 1 \<le> max_iterations env" using lt by simp
  have 2: "n = nat (max_iterations env - (iteration + 1))" using Suc.prems by linarith
  have 3: "int (length (history @ [s])) = iteration + 1" using Suc.prems(3) by simp
  have 4: "fold_observation ctx success observation = context_after env query (history @ [s])"
    using Suc.prems(4) by (simp add: context_after_snoc sa)
  have 5: "w' = world_after env w0 (history @ [s])"
    using Suc.prems(5) x by (simp add: world_after_snoc sa)
  have 6: "trace @ [a] = map st_action (history @ [s])"
    using Suc.prems(6) by (simp add: sa)
  have 7: "all_recorded env query w0 (history @ [s])"
    by (rule all_recorded_snoc[OF Suc.prems(7) rec])
  from Suc.IH[OF 1 2 3 4 5 6 7] step show ?case by simp
qed

text \<open>
  Claim C2. With a non-negative iteration budget and a provider none of whose responses
  is (or is turned into) a \<open>complete\<close> action, the run returns \<open>success = False\<close>, the
  fixed message, \<open>iterations = max_iterations\<close> and a history of that length. Step \<open>i\<close> of
  that history is the one made in iteration \<open>i\<close>: the provider's decision on the context
  and history reached by then, and the sandbox's answer to its action in the world
  reached by then. The dispatched actions are those of the history, in order, and the
  world is the one left by the last dispatch.
\<close>

theorem exhausted_run_result:
  assumes "0 \<le> max_iterations env" and "never_complete env"
  shows "\<exists>h. run env query w
               = (Inr \<lparr>tr_success = False,
                       tr_result = JStr ''Max iterations reached without completing task'',
                       tr_iterations = max_iterations env,
                       tr_execution_time = elapsed env (max_iterations env),
                       tr_history = h\<rparr>,
                  (map st_action h, world_after env w h)) \<and>
             int (length h) = max_iterations env \<and>
             (\<forall>i < length h. recorded_by env query w (take i h) (h ! i))"
proof -
  have "all_recorded env query w []" by (simp add: all_recorded_def)
  from run_loop_exhausts[OF assms(2) assms(1), of _ "[]" "initial_context env query" query w w "[]"] this
  obtain h where
    "run_loop env query 0 (initial_context env query) [] ([], w)
       = (Inr (exhausted env h), (map st_action h, world_after env w h))"
    and "int (length h) = max_iterations env"
    and "all_recorded env query w h"
    by (auto simp: context_after_def world_after_def)
  then show ?thesis
    by (intro exI[of _ h]) (simp add: run_def exhausted_def all_recorded_def)
qed

lemma never_done_env_never_complete: "never_complete never_done_env"
  by (simp add: never_complete_def never_done_env_def example_env_def think_and_act_def
        ls_decision_def parse_decision_def py_get_def dict_get_def)

theorem exhausted_run_result_witness:
  "(0::int) \<le> max_iterations never_done_env \<and> never_complete never_done_env \<and>
   fst (run never_done_env ''list the files'' ())
     = Inr \<lparr>tr_success = False,
            tr_result = JStr ''Max iterations reached without completing task'',
            tr_iterations = 3, tr_execution_time = 1,
            tr_history = [ok_step, ok_step, ok_step]\<rparr> \<and>
   fst (snd (run never_done_env ''list the files'' ()))
     = [st_action ok_step, st_action ok_step, st_action ok_step]"
proof -
  let ?env = never_done_env and ?q = "''list the files''"
  have m: "max_iterations ?env = 3" and e: "elapsed ?env 3 = 1"
    by (simp_all add: never_done_env_def example_env_def)
  have a: "(0::int) \<le> max_iterations ?env" by (simp add: m)
  from exhausted_run_result[OF a never_done_env_never_complete, of ?q "()"]
  obtain h where
    r: "run ?env ?q ()
          = (Inr \<lparr>tr_success = False,
                 tr_result = JStr ''Max iterations reached without completing task'',
                 tr_iterations = 3, tr_execution_time = 1, tr_history = h\<rparr>,
             (map st_action h, world_after ?env () h))"
    and l: "int (length h) = 3"
    and rec: "\<forall>i < length h. recorded_by ?env ?q () (take i h) (h ! i)"
    by (auto simp: m e)
  have each: "s = ok_step" if "recorded_by ?env ?q () d s" for d s
    using that
    by (cases s)
       (simp add: recorded_by_def never_done_env_def example_env_def think_and_act_def
          ls_decision_def parse_decision_def py_get_def dict_get_def ok_step_def)
  from l have len: "length h = 3" by simp
  then obtain s0 s1 s2 where h: "h = [s0, s1, s2]"
    by (metis (no_types, lifting) length_0_conv length_Suc_conv numeral_3_eq_3)
  from rec[rule_format, of 0] rec[rule_format, of 1] rec[rule_format, of 2] h
  have "s0 = ok_step" "s1 = ok_step" "s2 = ok_step"
    by (auto dest!: each)
  with h have "h = [ok_step, ok_step, ok_step]" by simp
  with r a never_done_env_never_complete show ?thesis by simp
qed

subsection \<open>Parse failures\<close>

text \<open>
  Claim C3 as amended. When the provider's output fails JSON decoding, \<open>think_and_act\<close>
  substitutes in that iteration a \<open>complete\<close> action with confidence 0 and result
  \<open>Error in reasoning\<close>, and, provided \<open>reflect_on_task\<close>, when reflection is enabled,
  returns, the run ends there with \<open>success = True\<close> and that result; nothing is
  dispatched and the returned history is the one of the earlier steps, with no step for
  the substituted action.
\<close>

theorem parse_failure_completes_without_step:
  assumes "iteration < max_iterations env"
    and "llm env iteration query context (py_slice history (- 5) (int (length history)))
           = JSONDecodeError"
    and "reflection_returns env query history (JStr ''Error in reasoning'')
           (elapsed env iteration) w"
  shows "parse_decision (think_and_act env iteration query context history)
           = Inr (JStr ''Error parsing response'',
                  \<lparr>action_type = JStr ''complete'',
                   parameters = JObj [(''result'', JStr ''Error in reasoning'')]\<rparr>, JFloat 0) \<and>
         fst (run_loop env query iteration context history (trace, w))
           = Inr \<lparr>tr_success = True, tr_result = JStr ''Error in reasoning'',
                  tr_iterations = iteration + 1, tr_execution_time = elapsed env iteration,
                  tr_history = history\<rparr> \<and>
         fst (snd (run_loop env query iteration context history (trace, w))) = trace"
proof -
  have p: "parse_decision (think_and_act env iteration query context history)
           = Inr (JStr ''Error parsing response'',
                  \<lparr>action_type = JStr ''complete'',
                   parameters = JObj [(''result'', JStr ''Error in reasoning'')]\<rparr>, JFloat 0)"
    using assms(2)
    by (simp add: think_and_act_def synthetic_complete_def parse_decision_def py_get_def
          dict_get_def)
  have r: "reflection_returns env query history
             (dict_get [(''result'', JStr ''Error in reasoning'')] ''result'' (JStr ''Task completed''))
             (elapsed env iteration) w"
    using assms(3) by (simp add: dict_get_def)
  have "run_loop env query iteration context history (trace, w)
          = complete_run env query iteration history
              \<lparr>action_type = JStr ''complete'',
               parameters = JObj [(''result'', JStr ''Error in reasoning'')]\<rparr> (trace, w)"
    by (rule run_loop_complete[OF assms(1) p]) simp
  moreover have pa: "parameters \<lparr>action_type = JStr ''complete'',
               parameters = JObj [(''result'', JStr ''Error in reasoning'')]\<rparr>
             = JObj [(''result'', JStr ''Error in reasoning'')]"
    by simp
  ultimately show ?thesis
    using complete_run_returns[OF pa r] p by (simp add: dict_get_def)
qed

theorem parse_failure_completes_without_step_witness:
  "(0::int) < max_iterations malformed_env \<and>
   llm malformed_env 0 ''q'' ''ctx'' (py_slice [ok_step] (- 5) (int (length [ok_step])))
     = JSONDecodeError \<and>
   fst (run_loop malformed_env ''q'' 0 ''ctx'' [ok_step] ([], ()))
     = Inr \<lparr>tr_success = True, tr_result = JStr ''Error in reasoning'', tr_iterations = 1,
            tr_execution_time = 1, tr_history = [ok_step]\<rparr>"
proof -
  have m: "(0::int) < max_iterations malformed_env"
    and e: "elapsed malformed_env 0 = 1"
    and l: "llm malformed_env 0 ''q'' ''ctx'' (py_slice [ok_step] (- 5) (int (length [ok_step])))
              = JSONDecodeError"
    by (simp_all add: malformed_env_def example_env_def)
  from parse_failure_completes_without_step[OF m l malformed_env_reflection_ok_step, of "[]"]
  show ?thesis using m e l by simp
qed

text \<open>
  Claim C3 as stated fails: with a provider whose first output is malformed, the run
  returns an empty history, so no terminal step is recorded in it.
\<close>

theorem parse_failure_leaves_history_empty:
  "fst (run malformed_env ''q'' ())
     = Inr \<lparr>tr_success = True, tr_result = JStr ''Error in reasoning'', tr_iterations = 1,
            tr_execution_time = 1, tr_history = []\<rparr>"
proof -
  have m: "(0::int) < max_iterations malformed_env"
    and e: "elapsed malformed_env 0 = 1"
    by (simp_all add: malformed_env_def example_env_def)
  have "run_loop malformed_env ''q'' 0 (initial_context malformed_env ''q'') [] ([], ())
          = complete_run malformed_env ''q'' 0 []
              \<lparr>action_type = JStr ''complete'',
               parameters = JObj [(''result'', JStr ''Error in reasoning'')]\<rparr> ([], ())"
    by (rule run_loop_complete[OF m malformed_env_parse]) simp
  then show ?thesis
    by (simp add: run_def complete_run_def py_get_def dict_get_def reflect_on_task_def
          extract_prerequisites_def malformed_env_def example_env_def)
qed

subsection \<open>Reflection at the end of a run\<close>

lemma think_and_act_reflection_off:
  "think_and_act (env\<lparr>reflection_enabled := False\<rparr>) i query context history
     = think_and_act env i query context history"
  by (simp add: think_and_act_def)

lemma reflect_on_task_outcome:
  "fst (reflect_on_task env query history result execution_time w)
     = (case extract_prerequisites env history of
          Inl e \<Rightarrow> Inl e
        | Inr prerequisites \<Rightarrow>
            (case fst (store_learning env
                        (make_learning query history execution_time prerequisites) w) of
               Some e \<Rightarrow> Inl e
             | None \<Rightarrow> Inr (make_learning query history execution_time prerequisites)))"
  by (simp add: reflect_on_task_def Let_def split: sum.splits prod.splits option.splits)

text \<open>
  Claim C6 as amended. When a run ends on a \<open>complete\<close> action with reflection enabled,
  \<open>reflect_on_task\<close> is called before the result is returned. If it returns, the run
  returns the very result it returns with reflection disabled. If it raises, the
  exception leaves \<open>run\<close> and no result is returned; it raises when the extraction of
  prerequisites from the history raises, and otherwise when the memory write of
  \<open>store_learning\<close> raises.
\<close>

theorem reflection_failure_propagates:
  assumes "iteration < max_iterations env"
    and "parse_decision (think_and_act env iteration query context history)
           = Inr (thought, a, confidence)"
    and "action_type a = JStr ''complete''"
    and "parameters a = JObj ps"
    and "reflection_enabled env"
  shows "fst (run_loop env query iteration context history (trace, w))
           = (case fst (reflect_on_task env query history
                         (dict_get ps ''result'' (JStr ''Task completed''))
                         (elapsed env iteration) w) of
                Inl e \<Rightarrow> Inl e
              | Inr l \<Rightarrow>
                  fst (run_loop (env\<lparr>reflection_enabled := False\<rparr>) query iteration context
                         history (trace, w))) \<and>
         fst (run_loop (env\<lparr>reflection_enabled := False\<rparr>) query iteration context history
                (trace, w))
           = Inr \<lparr>tr_success = True, tr_result = dict_get ps ''result'' (JStr ''Task completed''),
                  tr_iterations = iteration + 1, tr_execution_time = elapsed env iteration,
                  tr_history = history\<rparr> \<and>
         fst (reflect_on_task env query history
                (dict_get ps ''result'' (JStr ''Task completed'')) (elapsed env iteration) w)
           = (case extract_prerequisites env history of
                Inl e \<Rightarrow> Inl e
              | Inr prerequisites \<Rightarrow>
                  (case fst (store_learning env
                              (make_learning query history (elapsed env iteration) prerequisites)
                              w) of
                     Some e \<Rightarrow> Inl e
                   | None \<Rightarrow>
                       Inr (make_learning query history (elapsed env iteration) prerequisites)))"
proof -
  let ?env' = "env\<lparr>reflection_enabled := False\<rparr>"
  let ?answer = "\<lparr>tr_success = True, tr_result = dict_get ps ''result'' (JStr ''Task completed''),
                  tr_iterations = iteration + 1, tr_execution_time = elapsed env iteration,
                  tr_history = history\<rparr>"
  have 1: "run_loop env query iteration context history (trace, w)
             = complete_run env query iteration history a (trace, w)"
    by (rule run_loop_complete[OF assms(1-3)])
  have m: "iteration < max_iterations ?env'" using assms(1) by simp
  have p: "parse_decision (think_and_act ?env' iteration query context history)
             = Inr (thought, a, confidence)"
    using assms(2) by (simp add: think_and_act_reflection_off)
  have 2: "run_loop ?env' query iteration context history (trace, w)
             = complete_run ?env' query iteration history a (trace, w)"
    by (rule run_loop_complete[OF m p assms(3)])
  have off: "fst (complete_run ?env' query iteration history a (trace, w)) = Inr ?answer"
    using assms(4) by (simp add: complete_run_def py_get_def)
  have on: "fst (complete_run env query iteration history a (trace, w))
           = (case fst (reflect_on_task env query history
                         (dict_get ps ''result'' (JStr ''Task completed''))
                         (elapsed env iteration) w) of
                Inl e \<Rightarrow> Inl e
              | Inr l \<Rightarrow> Inr ?answer)"
    using assms(4,5)
    by (simp add: complete_run_def py_get_def Let_def split: prod.splits sum.splits)
  from 1 2 on off show ?thesis
    by (simp add: reflect_on_task_outcome split: sum.splits)
qed

lemma failing_memory_env_parse:
  "parse_decision (think_and_act failing_memory_env i query context history)
     = Inr (JStr ''Task completed successfully'',
            \<lparr>action_type = JStr ''complete'', parameters = JObj [(''result'', JStr ''done'')]\<rparr>,
            JFloat 1)"
  by (simp add: failing_memory_env_def example_env_def think_and_act_def done_decision_def
        parse_decision_def py_get_def dict_get_def)

theorem reflection_failure_propagates_witness:
  "(0::int) < max_iterations failing_memory_env \<and> reflection_enabled failing_memory_env \<and>
   fst (run_loop failing_memory_env ''q'' 0 ''ctx'' [] ([], ()))
     = Inl (OSError ''No space left on device'') \<and>
   fst (run_loop (failing_memory_env\<lparr>reflection_enabled := False\<rparr>) ''q'' 0 ''ctx'' [] ([], ()))
     = Inr \<lparr>tr_success = True, tr_result = JStr ''done'', tr_iterations = 1,
            tr_execution_time = 1, tr_history = []\<rparr>"
proof -
  have m: "(0::int) < max_iterations failing_memory_env"
    and r: "reflection_enabled failing_memory_env"
    and e: "elapsed failing_memory_env 0 = 1"
    and s: "fst (store_learning failing_memory_env l ()) = Some (OSError ''No space left on device'')" for l
    by (simp_all add: failing_memory_env_def example_env_def)
  have x: "extract_prerequisites failing_memory_env [] = Inr []"
    by (simp add: extract_prerequisites_def failing_memory_env_def example_env_def)
  from reflection_failure_propagates[OF m failing_memory_env_parse _ _ r,
         of "[(''result'', JStr ''done'')]" "''q''" "''ctx''" "[]" "[]" "()"]
  show ?thesis using m r e s x by (simp add: dict_get_def)
qed

text \<open>
  Claim C6 as stated fails: the same task, completed in the first iteration, returns its
  result when the memory write succeeds and raises \<open>OSError\<close> when the write fails.
\<close>

theorem reflection_error_replaces_result:
  "fst (run failing_memory_env ''q'' ()) = Inl (OSError ''No space left on device'') \<and>
   fst (run working_memory_env ''q'' ())
     = Inr \<lparr>tr_success = True, tr_result = JStr ''done'', tr_iterations = 1,
            tr_execution_time = 1, tr_history = []\<rparr>"
proof -
  have m: "(0::int) < max_iterations failing_memory_env"
    by (simp add: failing_memory_env_def example_env_def)
  have m': "(0::int) < max_iterations working_memory_env"
    by (simp add: working_memory_env_def example_env_def)
  have p': "parse_decision (think_and_act working_memory_env 0 ''q''
                (initial_context working_memory_env ''q'') [])
     = Inr (JStr ''Task completed successfully'',
            \<lparr>action_type = JStr ''complete'', parameters = JObj [(''result'', JStr ''done'')]\<rparr>,
            JFloat 1)"
    by (simp add: working_memory_env_def example_env_def think_and_act_def done_decision_def
        parse_decision_def py_get_def dict_get_def)
  have a: "run_loop failing_memory_env ''q'' 0 (initial_context failing_memory_env ''q'') [] ([], ())
          = complete_run failing_memory_env ''q'' 0 []
              \<lparr>action_type = JStr ''complete'', parameters = JObj [(''result'', JStr ''done'')]\<rparr>
              ([], ())"
    by (rule run_loop_complete[OF m failing_memory_env_parse]) simp
  have b: "run_loop working_memory_env ''q'' 0 (initial_context working_memory_env ''q'') [] ([], ())
          = complete_run working_memory_env ''q'' 0 []
              \<lparr>action_type = JStr ''complete'', parameters = JObj [(''result'', JStr ''done'')]\<rparr>
              ([], ())"
    by (rule run_loop_complete[OF m' p']) simp
  have fa: "fst (complete_run failing_memory_env ''q'' 0 []
              \<lparr>action_type = JStr ''complete'', parameters = JObj [(''result'', JStr ''done'')]\<rparr>
              ([], ())) = Inl (OSError ''No space left on device'')"
    by (simp add: complete_run_def py_get_def dict_get_def reflect_on_task_def
          extract_prerequisites_def failing_memory_env_def example_env_def)
  have fb: "fst (complete_run working_memory_env ''q'' 0 []
              \<lparr>action_type = JStr ''complete'', parameters = JObj [(''result'', JStr ''done'')]\<rparr>
              ([], ()))
     = Inr \<lparr>tr_success = True, tr_result = JStr ''done'', tr_iterations = 1,
            tr_execution_time = 1, tr_history = []\<rparr>"
    by (simp add: complete_run_def py_get_def dict_get_def reflect_on_task_def
          extract_prerequisites_def working_memory_env_def example_env_def)
  from a b fa fb show ?thesis by (simp add: run_def)
qed

subsection \<open>Confidence scores\<close>

lemma reflect_confidence_bounds:
  "0 \<le> reflect_confidence history \<and> reflect_confidence history \<le> 1"
proof -
  have "length (filter st_success history) \<le> length history" by (rule length_filter_le)
  then have "(of_nat (length (filter st_success history)) :: rat) \<le> of_nat (length history)"
    by (simp only: of_nat_le_iff)
  then show ?thesis
    by (simp add: reflect_confidence_def Let_def divide_le_eq_1)
qed

text \<open>
  Claim C8 as amended. An experience built by \<open>store_experience\<close> has the confidence of
  the specification's formula, (0.8 if success else 0.2) minus min(len(strategy)/10, 0.2)
  clamped to [0, 1]; a learning built by the orchestrator's \<open>reflect_on_task\<close> has the
  fraction of successful steps of the history, 0 for an empty history. Both lie between
  0 and 1.
\<close>

theorem confidence_scores_bounded:
  "exp_confidence_score
     (make_experience experience_id timestamp task_type query strategy success execution_time
        context failure_reason) = spec_confidence (length strategy) success \<and>
   0 \<le> spec_confidence (length strategy) success \<and>
   spec_confidence (length strategy) success \<le> 1 \<and>
   l_confidence_score (make_learning q history t prerequisites)
     = (if history = [] then 0
        else of_nat (length (filter st_success history)) / of_nat (length history)) \<and>
   0 \<le> l_confidence_score (make_learning q history t prerequisites) \<and>
   l_confidence_score (make_learning q history t prerequisites) \<le> 1"
proof -
  have a: "l_confidence_score (make_learning q history t prerequisites) = reflect_confidence history"
    by (simp add: make_learning_def)
  show ?thesis
    unfolding a using reflect_confidence_bounds[of history]
    by (simp add: make_experience_def calculate_confidence_def spec_confidence_def
          reflect_confidence_def Let_def)
qed

text \<open>
  Claim C8 as stated fails for the orchestrator's learnings: after one successful step
  the stored confidence is 1, where the formula gives 0.7 for a success and 0.1 for a
  failure with a strategy of length 1.
\<close>

theorem reflected_confidence_is_not_the_formula:
  "l_confidence_score (make_learning ''q'' [ok_step] 1 []) = 1 \<and>
   length (l_successful_strategy (make_learning ''q'' [ok_step] 1 [])) = 1 \<and>
   spec_confidence 1 True = 7 / 10 \<and> spec_confidence 1 False = 1 / 10 \<and>
   l_confidence_score (make_learning ''q'' [ok_step] 1 [])
     \<noteq> spec_confidence (length (l_successful_strategy (make_learning ''q'' [ok_step] 1 []))) True \<and>
   l_confidence_score (make_learning ''q'' [ok_step] 1 [])
     \<noteq> spec_confidence (length (l_successful_strategy (make_learning ''q'' [ok_step] 1 []))) False"
  by (simp add: make_learning_def reflect_confidence_def ok_step_def spec_confidence_def)

end
